theory Spec2Isabelle
  imports Main
begin

chapter \<open>The resilience layer of the Gemini bridge server\<close>

text \<open>
  A shallow embedding of the credential rotation manager, the fallback controller with
  its error classification and persistence, and the request path of the API client of
  \<open>bridge-server\<close>, followed by the properties proved of them. Each source function
  is a HOL function of the same name; what a method mutates is passed in and returned;
  what it throws is the \<open>Inl\<close> of a sum.
\<close>

section \<open>Credential rotation: \<open>ApiKeyRotationManager\<close>\<close>

text \<open>
  The rotation manager of \<open>rotation/ApiKeyRotationManager.ts\<close> and the types of
  \<open>rotation/types.ts\<close>. A JavaScript \<open>Date\<close> is its millisecond timestamp, an
  optional field is an \<open>option\<close>, counters are natural numbers, and every timestamp
  is taken to lie in the range a \<open>Date\<close> can hold. Every operation reads
  the clock through a parameter \<open>now\<close>. The persistence file is the field
  \<open>persisted\<close> of the manager; \<open>store_writable\<close> says whether a write to it
  succeeds (the source logs and swallows a failed write). \<open>Math.random\<close> is an oracle
  \<open>rnd\<close>: the \<open>i\<close>-th draw, already scaled, is \<open>rnd i mod length keys\<close>.
\<close>

datatype key_status = Active | Failed | Cooldown

datatype rotation_strategy = RoundRobin | Random | LeastUsed

record ApiKeyInfo =
  key :: string
  status :: key_status
  requestCount :: nat
  successCount :: nat
  failureCount :: nat
  consecutiveFailures :: nat
  lastUsed :: "int option"
  lastSuccess :: "int option"
  lastFailure :: "int option"
  cooldownUntil :: "int option"
  lastError :: "string option"

record RotationConfig =
  strategy :: rotation_strategy
  maxConsecutiveFailures :: int
  cooldownPeriod :: int

record PersistenceData =
  pd_currentIndex :: nat
  pd_lastUsedTime :: int
  pd_totalRequests :: nat
  pd_keys :: "ApiKeyInfo list"

record manager =
  keys :: "ApiKeyInfo list"
  currentIndex :: nat
  totalRequests :: nat
  config :: RotationConfig
  persisted :: "PersistenceData option"
  store_writable :: bool
  draws :: nat

datatype rotation_error =
  NoApiKeysAvailable
  | NoAvailableApiKeysFound
  | NoApiKeysConfigured
  | DefaultApiKeyNotSet
  | KeyIndexOutOfRange

text \<open>\<open>initializeApiKeys\<close>: one fresh entry per configured account, in configuration order.\<close>

definition freshKey :: "string \<Rightarrow> ApiKeyInfo" where
  "freshKey k =
     \<lparr>key = k, status = Active, requestCount = 0, successCount = 0, failureCount = 0,
      consecutiveFailures = 0, lastUsed = None, lastSuccess = None, lastFailure = None,
      cooldownUntil = None, lastError = None\<rparr>"

definition initializeApiKeys :: "string list \<Rightarrow> rotation_error + ApiKeyInfo list" where
  "initializeApiKeys accounts =
     (if map freshKey accounts = [] then Inl NoApiKeysConfigured
      else Inr (map freshKey accounts))"

definition freshManager :: "RotationConfig \<Rightarrow> string list \<Rightarrow> manager" where
  "freshManager cfg accounts =
     \<lparr>keys = map freshKey accounts, currentIndex = 0, totalRequests = 0, config = cfg,
      persisted = None, store_writable = True, draws = 0\<rparr>"

text \<open>\<open>saveState\<close>: a snapshot of the state replaces the persistence file; a failed write
  changes nothing.\<close>

definition saveState :: "int \<Rightarrow> manager \<Rightarrow> manager" where
  "saveState now m =
     (if store_writable m then
        m\<lparr>persisted := Some \<lparr>pd_currentIndex = currentIndex m, pd_lastUsedTime = now,
                               pd_totalRequests = totalRequests m, pd_keys = keys m\<rparr>\<rparr>
      else m)"

text \<open>\<open>isKeyAvailable\<close>: a failed key whose cooldown is over (or has none) is flipped to
  active and its \<open>cooldownUntil\<close> cleared; the result is \<open>key.status === 'active'\<close>.\<close>

definition isKeyAvailable :: "int \<Rightarrow> ApiKeyInfo \<Rightarrow> bool \<times> ApiKeyInfo" where
  "isKeyAvailable now k =
     (if status k = Failed then
        (if (case cooldownUntil k of None \<Rightarrow> False | Some t \<Rightarrow> now < t) then (False, k)
         else (True, k\<lparr>status := Active, cooldownUntil := None\<rparr>))
      else (status k = Active, k))"

definition updateKeyUsage :: "int \<Rightarrow> nat \<Rightarrow> manager \<Rightarrow> manager" where
  "updateKeyUsage now i m =
     m\<lparr>keys := (keys m)[i := (keys m ! i)\<lparr>requestCount := Suc (requestCount (keys m ! i)),
                                           lastUsed := Some now\<rparr>],
       totalRequests := Suc (totalRequests m)\<rparr>"

text \<open>\<open>findLeastUsedKeyIndex\<close>: the \<open>forEach\<close> with \<open>minUsage = Infinity\<close> (here
  \<open>None\<close>) and \<open>minIndex = 0\<close>.\<close>

fun leastUsedScan :: "ApiKeyInfo list \<Rightarrow> nat \<Rightarrow> nat option \<Rightarrow> nat \<Rightarrow> nat" where
  "leastUsedScan [] i minUsage minIndex = minIndex"
| "leastUsedScan (k # ks) i minUsage minIndex =
     (if status k = Active \<and> (case minUsage of None \<Rightarrow> True | Some u \<Rightarrow> requestCount k < u)
      then leastUsedScan ks (Suc i) (Some (requestCount k)) i
      else leastUsedScan ks (Suc i) minUsage minIndex)"

definition findLeastUsedKeyIndex :: "manager \<Rightarrow> nat" where
  "findLeastUsedKeyIndex m = leastUsedScan (keys m) 0 None 0"

definition moveToNextKey :: "(nat \<Rightarrow> nat) \<Rightarrow> manager \<Rightarrow> manager" where
  "moveToNextKey rnd m =
     (case strategy (config m) of
        RoundRobin \<Rightarrow> m\<lparr>currentIndex := (currentIndex m + 1) mod length (keys m)\<rparr>
      | Random \<Rightarrow> m\<lparr>currentIndex := rnd (draws m) mod length (keys m), draws := Suc (draws m)\<rparr>
      | LeastUsed \<Rightarrow> m\<lparr>currentIndex := findLeastUsedKeyIndex m\<rparr>)"

text \<open>The \<open>while (attempts < maxAttempts)\<close> loop of \<open>getNextApiKey\<close>, by recursion on the
  attempts that remain. Reading \<open>this.keys[this.currentIndex]\<close> out of range gives
  \<open>undefined\<close>, and the next property access throws: \<open>KeyIndexOutOfRange\<close>.\<close>

fun nextKeyLoop :: "(nat \<Rightarrow> nat) \<Rightarrow> int \<Rightarrow> nat \<Rightarrow> manager \<Rightarrow> (rotation_error + string) \<times> manager" where
  "nextKeyLoop rnd now 0 m = (Inl NoAvailableApiKeysFound, m)"
| "nextKeyLoop rnd now (Suc n) m =
     (if currentIndex m < length (keys m) then
        (case isKeyAvailable now (keys m ! currentIndex m) of
           (avail, k') \<Rightarrow>
             (let m1 = m\<lparr>keys := (keys m)[currentIndex m := k']\<rparr> in
              if avail then
                (Inr (key k'), saveState now (updateKeyUsage now (currentIndex m1) m1))
              else nextKeyLoop rnd now n (moveToNextKey rnd m1)))
      else (Inl KeyIndexOutOfRange, m))"

definition getNextApiKey :: "(nat \<Rightarrow> nat) \<Rightarrow> int \<Rightarrow> manager \<Rightarrow> (rotation_error + string) \<times> manager" where
  "getNextApiKey rnd now m =
     (if length (keys m) = 0 then (Inl NoApiKeysAvailable, m)
      else nextKeyLoop rnd now (length (keys m)) m)"

text \<open>\<open>this.keys.find(k => k.key === apiKey)\<close>, as the index of the first match.\<close>

fun findKey :: "string \<Rightarrow> ApiKeyInfo list \<Rightarrow> nat option" where
  "findKey apiKey [] = None"
| "findKey apiKey (k # ks) =
     (if key k = apiKey then Some 0 else map_option Suc (findKey apiKey ks))"

definition reportSuccess :: "int \<Rightarrow> ApiKeyInfo \<Rightarrow> ApiKeyInfo" where
  "reportSuccess now k =
     (let k1 = k\<lparr>successCount := Suc (successCount k), lastSuccess := Some now,
                 consecutiveFailures := 0\<rparr>
      in if status k1 = Failed then k1\<lparr>status := Active\<rparr> else k1)"

definition reportFailure :: "RotationConfig \<Rightarrow> int \<Rightarrow> string option \<Rightarrow> ApiKeyInfo \<Rightarrow> ApiKeyInfo" where
  "reportFailure cfg now errorType k =
     (let k1 = k\<lparr>failureCount := Suc (failureCount k), lastFailure := Some now,
                 consecutiveFailures := Suc (consecutiveFailures k), lastError := errorType\<rparr>
      in if int (consecutiveFailures k1) \<ge> maxConsecutiveFailures cfg
         then k1\<lparr>status := Failed, cooldownUntil := Some (now + cooldownPeriod cfg)\<rparr>
         else k1)"

definition reportKeyUsage :: "manager \<Rightarrow> string \<Rightarrow> bool \<Rightarrow> string option \<Rightarrow> int \<Rightarrow> manager" where
  "reportKeyUsage m apiKey success errorType now =
     (case findKey apiKey (keys m) of
        None \<Rightarrow> m
      | Some i \<Rightarrow>
          saveState now
            (m\<lparr>keys := (keys m)[i := (if success then reportSuccess now (keys m ! i)
                                       else reportFailure (config m) now errorType (keys m ! i))]\<rparr>))"

text \<open>\<open>resetAllKeys\<close>: the manual recovery path.\<close>

definition resetAllKeys :: "int \<Rightarrow> manager \<Rightarrow> manager" where
  "resetAllKeys now m =
     saveState now
       (m\<lparr>keys := map (\<lambda>k. k\<lparr>status := Active, consecutiveFailures := 0,
                                cooldownUntil := None, lastError := None\<rparr>) (keys m)\<rparr>)"

text \<open>A run of \<open>n\<close> acquisitions with nothing reported in between: the keys returned.\<close>

fun acquireMany :: "(nat \<Rightarrow> nat) \<Rightarrow> int \<Rightarrow> nat \<Rightarrow> manager \<Rightarrow> (rotation_error + string) list" where
  "acquireMany rnd now 0 m = []"
| "acquireMany rnd now (Suc n) m =
     (case getNextApiKey rnd now m of (r, m') \<Rightarrow> r # acquireMany rnd now n m')"

text \<open>Repeated failure reports for one key.\<close>

fun failMany :: "nat \<Rightarrow> string \<Rightarrow> int \<Rightarrow> manager \<Rightarrow> manager" where
  "failMany 0 apiKey now m = m"
| "failMany (Suc n) apiKey now m = failMany n apiKey now (reportKeyUsage m apiKey False None now)"

text \<open>The rotation settings of the cooldown scenario: three failures, ten minutes.\<close>

definition scenarioRotationConfig :: RotationConfig where
  "scenarioRotationConfig =
     \<lparr>strategy = RoundRobin, maxConsecutiveFailures = 3, cooldownPeriod = 600000\<rparr>"

section \<open>Error classification: \<open>fallback/errorDetection.ts\<close>\<close>

text \<open>
  The value a backend call throws. \<open>Falsy s\<close> is a value for which \<open>!error\<close> holds
  (\<open>null\<close>, \<open>undefined\<close>, \<open>''\<close>, ...), \<open>s\<close> being \<open>String(error)\<close>.
  \<open>NonError s msg st rst\<close> is a truthy value that is not an \<open>Error\<close> instance:
  \<open>String(error)\<close>, its \<open>message\<close> property, its numeric \<open>status\<close> property and
  its numeric \<open>response.status\<close> property, where it has them. \<open>ErrorObject name msg st rst\<close> is an
  \<open>Error\<close> instance with its \<open>name\<close>, \<open>message\<close> and the same two optional numbers.
  Strings are byte strings; \<open>toLowerCase\<close> maps the ASCII capitals.
\<close>

datatype thrown =
  Falsy string
  | NonError string "string option" "int option" "int option"
  | ErrorObject string string "int option" "int option"

datatype ErrorType =
  QUOTA_EXCEEDED
  | RATE_LIMIT
  | PRO_QUOTA_EXCEEDED
  | GENERIC_QUOTA_EXCEEDED
  | SERVER_ERROR
  | NETWORK_ERROR
  | UNKNOWN_ERROR
  | UNKNOWN

definition toLowerChar :: "char \<Rightarrow> char" where
  "toLowerChar c =
     (case map_of (zip ''ABCDEFGHIJKLMNOPQRSTUVWXYZ'' ''abcdefghijklmnopqrstuvwxyz'') c of
        Some l \<Rightarrow> l
      | None \<Rightarrow> c)"

definition toLowerCase :: "string \<Rightarrow> string" where
  "toLowerCase s = map toLowerChar s"

fun startsWith :: "string \<Rightarrow> string \<Rightarrow> bool" where
  "startsWith s [] = True"
| "startsWith [] (c # cs) = False"
| "startsWith (x # xs) (c # cs) = (x = c \<and> startsWith xs cs)"

text \<open>\<open>String.prototype.includes\<close>.\<close>

fun includesStr :: "string \<Rightarrow> string \<Rightarrow> bool" where
  "includesStr [] k = (k = [])"
| "includesStr (x # xs) k = (startsWith (x # xs) k \<or> includesStr xs k)"

definition isTruthy :: "thrown \<Rightarrow> bool" where
  "isTruthy e = (case e of Falsy s \<Rightarrow> False | _ \<Rightarrow> True)"

text \<open>\<open>String(error)\<close>; for an \<open>Error\<close> it is \<open>name: message\<close>, or the one of the two
  that is not empty.\<close>

definition stringOf :: "thrown \<Rightarrow> string" where
  "stringOf e =
     (case e of
        Falsy s \<Rightarrow> s
      | NonError s msg st rst \<Rightarrow> s
      | ErrorObject n m st rst \<Rightarrow>
          (if n = [] then m else if m = [] then n else n @ '': '' @ m))"

text \<open>\<open>error instanceof Error ? error.message : String(error)\<close>.\<close>

definition errorMessage :: "thrown \<Rightarrow> string" where
  "errorMessage e = (case e of ErrorObject n m st rst \<Rightarrow> m | _ \<Rightarrow> stringOf e)"

definition quotaKeywords :: "string list" where
  "quotaKeywords =
     [''quota exceeded'', ''quota limit'', ''daily quota'', ''usage limit'',
      ''rate limit exceeded'', ''too many requests'']"

definition rateLimitKeywords :: "string list" where
  "rateLimitKeywords =
     [''429'', ''rate limit'', ''too many requests'', ''request limit'', ''throttled'']"

definition proQuotaKeywords :: "string list" where
  "proQuotaKeywords =
     [''pro quota'', ''pro model quota'', ''gemini-pro quota'', ''gemini-2.5-pro quota'',
      ''pro daily quota'']"

definition isQuotaExceededError :: "thrown \<Rightarrow> bool" where
  "isQuotaExceededError e =
     (if \<not> isTruthy e then False
      else list_ex (includesStr (toLowerCase (errorMessage e))) quotaKeywords)"

definition isDigit :: "char \<Rightarrow> bool" where
  "isDigit c = (c \<in> set ''0123456789'')"

definition isWordChar :: "char \<Rightarrow> bool" where
  "isWordChar c =
     (c \<in> set ''ABCDEFGHIJKLMNOPQRSTUVWXYZabcdefghijklmnopqrstuvwxyz0123456789_'')"

definition digitValue :: "char \<Rightarrow> int" where
  "digitValue c =
     (case map_of (zip ''0123456789'' [0, 1, 2, 3, 4, 5, 6, 7, 8, 9]) c of
        Some d \<Rightarrow> d
      | None \<Rightarrow> 0)"

text \<open>The first match of \<open>/\b(\d{3})\b/\<close>, read as a number: three digits with no word
  character before or after them. \<open>prevWord\<close> says whether the character before the
  current position is a word character.\<close>

fun statusMatch :: "bool \<Rightarrow> string \<Rightarrow> int option" where
  "statusMatch prevWord (a # b # c # rest) =
     (if \<not> prevWord \<and> isDigit a \<and> isDigit b \<and> isDigit c
         \<and> (case rest of [] \<Rightarrow> True | d # ds \<Rightarrow> \<not> isWordChar d)
      then Some (digitValue a * 100 + digitValue b * 10 + digitValue c)
      else statusMatch (isWordChar a) (b # c # rest))"
| "statusMatch prevWord s = None"

definition getErrorStatus :: "thrown \<Rightarrow> int option" where
  "getErrorStatus e =
     (case e of
        Falsy s \<Rightarrow> None
      | NonError s msg st rst \<Rightarrow>
          (case st of Some n \<Rightarrow> Some n | None \<Rightarrow> rst)
      | ErrorObject n m st rst \<Rightarrow>
          (case st of
             Some k \<Rightarrow> Some k
           | None \<Rightarrow>
               (case rst of
                  Some k \<Rightarrow> Some k
                | None \<Rightarrow>
                    (if m \<noteq> [] then
                       (case statusMatch False m of
                          Some k \<Rightarrow> (if k \<ge> 100 \<and> k < 600 then Some k else None)
                        | None \<Rightarrow> None)
                     else None))))"

definition isRateLimitError :: "thrown \<Rightarrow> bool" where
  "isRateLimitError e =
     (if \<not> isTruthy e then False
      else if getErrorStatus e = Some 429 then True
      else list_ex (includesStr (toLowerCase (errorMessage e))) rateLimitKeywords)"

definition isProQuotaExceededError :: "thrown \<Rightarrow> bool" where
  "isProQuotaExceededError e =
     (if \<not> isTruthy e then False
      else list_ex (includesStr (toLowerCase (errorMessage e))) proQuotaKeywords)"

definition isGenericQuotaExceededError :: "thrown \<Rightarrow> bool" where
  "isGenericQuotaExceededError e =
     (if isProQuotaExceededError e then False else isQuotaExceededError e)"

definition isServerError :: "thrown \<Rightarrow> bool" where
  "isServerError e =
     (if \<not> isTruthy e then False
      else (case getErrorStatus e of None \<Rightarrow> False | Some k \<Rightarrow> k \<ge> 500 \<and> k < 600))"

definition isNetworkWording :: "thrown \<Rightarrow> bool" where
  "isNetworkWording e =
     (case e of
        ErrorObject n m st rst \<Rightarrow>
          includesStr (toLowerCase m) ''network'' \<or> includesStr (toLowerCase m) ''connection''
            \<or> includesStr (toLowerCase m) ''timeout''
      | _ \<Rightarrow> False)"

definition getErrorType :: "thrown \<Rightarrow> ErrorType" where
  "getErrorType e =
     (if isProQuotaExceededError e then PRO_QUOTA_EXCEEDED
      else if isGenericQuotaExceededError e then GENERIC_QUOTA_EXCEEDED
      else if isRateLimitError e then RATE_LIMIT
      else if isServerError e then SERVER_ERROR
      else if isNetworkWording e then NETWORK_ERROR
      else UNKNOWN_ERROR)"

definition fallbackTriggerTypes :: "ErrorType list" where
  "fallbackTriggerTypes =
     [QUOTA_EXCEEDED, RATE_LIMIT, PRO_QUOTA_EXCEEDED, GENERIC_QUOTA_EXCEEDED, SERVER_ERROR]"

text \<open>\<open>shouldTriggerFallback\<close> of \<open>errorDetection.ts\<close>.\<close>

definition errorShouldTriggerFallback :: "thrown \<Rightarrow> bool" where
  "errorShouldTriggerFallback e = (getErrorType e \<in> set fallbackTriggerTypes)"

section \<open>Fallback state and its SQLite persistence\<close>

text \<open>
  \<open>types/fallback.ts\<close> and \<open>fallback/SqliteFallbackPersistence.ts\<close>. A timestamp made by
  \<open>new Date().toISOString()\<close> is a string read from the clock parameter. A JavaScript
  object that goes through \<open>JSON.stringify\<close> is a \<open>json\<close> value; a property that is
  \<open>undefined\<close> is left out of the object, as \<open>JSON.stringify\<close> does.
  \<open>JSON.stringify\<close> and \<open>JSON.parse\<close> themselves belong to the language, not to the
  repository: they are the fields \<open>JSON_stringify\<close> and \<open>JSON_parse\<close> of the
  \<open>world\<close> a function runs in (\<open>None\<close> where \<open>JSON.parse\<close> throws). The world
  also holds the two collaborators of a request: \<open>backend i\<close> is what the \<open>i\<close>-th
  call of \<open>GeminiChat.sendMessageStream\<close> throws, and \<open>createContentGenerator i\<close> what
  the creation of the content generator before it throws (\<open>None\<close>: nothing).
\<close>

datatype json =
  JNull
  | JBool bool
  | JNum int
  | JStr string
  | JArr "json list"
  | JObj "(string \<times> json) list"

record world =
  JSON_stringify :: "json \<Rightarrow> string"
  JSON_parse :: "string \<Rightarrow> json option"
  backend :: "nat \<Rightarrow> thrown option"
  createContentGenerator :: "nat \<Rightarrow> thrown option"

record LastError =
  le_message :: string
  le_timestamp :: string
  le_type :: ErrorType

record FallbackState =
  isInFallbackMode :: bool
  fallbackStartTime :: "string option"
  fs_consecutiveFailures :: nat
  lastSwitchReason :: "string option"
  currentModel :: string
  fallbackModel :: string
  lastSwitchTime :: "string option"
  switchCount :: nat
  fs_lastError :: "LastError option"
  lastUpdated :: string

text \<open>The string values of the \<open>ErrorType\<close> enum.\<close>

definition errorTypeString :: "ErrorType \<Rightarrow> string" where
  "errorTypeString t =
     (case t of
        QUOTA_EXCEEDED \<Rightarrow> ''quota_exceeded''
      | RATE_LIMIT \<Rightarrow> ''rate_limit''
      | PRO_QUOTA_EXCEEDED \<Rightarrow> ''pro_quota_exceeded''
      | GENERIC_QUOTA_EXCEEDED \<Rightarrow> ''generic_quota_exceeded''
      | SERVER_ERROR \<Rightarrow> ''server_error''
      | NETWORK_ERROR \<Rightarrow> ''network_error''
      | UNKNOWN_ERROR \<Rightarrow> ''unknown_error''
      | UNKNOWN \<Rightarrow> ''unknown'')"

definition errorTypeOfString :: "string \<Rightarrow> ErrorType option" where
  "errorTypeOfString s =
     map_of [(''quota_exceeded'', QUOTA_EXCEEDED), (''rate_limit'', RATE_LIMIT),
             (''pro_quota_exceeded'', PRO_QUOTA_EXCEEDED),
             (''generic_quota_exceeded'', GENERIC_QUOTA_EXCEEDED),
             (''server_error'', SERVER_ERROR), (''network_error'', NETWORK_ERROR),
             (''unknown_error'', UNKNOWN_ERROR), (''unknown'', UNKNOWN)] s"

text \<open>A state object as the \<open>json\<close> value \<open>JSON.stringify\<close> sees.\<close>

definition optionalString :: "string \<Rightarrow> string option \<Rightarrow> (string \<times> json) list" where
  "optionalString k v = (case v of None \<Rightarrow> [] | Some s \<Rightarrow> [(k, JStr s)])"

definition nullableString :: "string option \<Rightarrow> json" where
  "nullableString v = (case v of None \<Rightarrow> JNull | Some s \<Rightarrow> JStr s)"

definition lastErrorJson :: "LastError option \<Rightarrow> json" where
  "lastErrorJson v =
     (case v of
        None \<Rightarrow> JNull
      | Some e \<Rightarrow>
          JObj [(''message'', JStr (le_message e)), (''timestamp'', JStr (le_timestamp e)),
                (''type'', JStr (errorTypeString (le_type e)))])"

definition stateJson :: "FallbackState \<Rightarrow> json" where
  "stateJson s =
     JObj ([(''isInFallbackMode'', JBool (isInFallbackMode s))]
           @ optionalString ''fallbackStartTime'' (fallbackStartTime s)
           @ [(''consecutiveFailures'', JNum (int (fs_consecutiveFailures s)))]
           @ optionalString ''lastSwitchReason'' (lastSwitchReason s)
           @ [(''currentModel'', JStr (currentModel s)),
              (''fallbackModel'', JStr (fallbackModel s)),
              (''lastSwitchTime'', nullableString (lastSwitchTime s)),
              (''switchCount'', JNum (int (switchCount s))),
              (''lastError'', lastErrorJson (fs_lastError s)),
              (''lastUpdated'', JStr (lastUpdated s))])"

text \<open>Reading a parsed object as a \<open>FallbackState\<close>: property access by name (of a
  repeated name \<open>JSON.parse\<close> keeps the last). \<open>None\<close> where the object does not have
  the shape of the interface; the source makes no such check (it casts).\<close>

definition property :: "(string \<times> json) list \<Rightarrow> string \<Rightarrow> json option" where
  "property kvs k = map_of (rev kvs) k"

definition asBool :: "json option \<Rightarrow> bool option" where
  "asBool v = (case v of Some (JBool b) \<Rightarrow> Some b | _ \<Rightarrow> None)"

definition asString :: "json option \<Rightarrow> string option" where
  "asString v = (case v of Some (JStr s) \<Rightarrow> Some s | _ \<Rightarrow> None)"

definition asNat :: "json option \<Rightarrow> nat option" where
  "asNat v = (case v of Some (JNum n) \<Rightarrow> (if n \<ge> 0 then Some (nat n) else None) | _ \<Rightarrow> None)"

definition asOptionalString :: "json option \<Rightarrow> string option option" where
  "asOptionalString v =
     (case v of None \<Rightarrow> Some None | Some (JStr s) \<Rightarrow> Some (Some s) | _ \<Rightarrow> None)"

definition asNullableString :: "json option \<Rightarrow> string option option" where
  "asNullableString v =
     (case v of Some JNull \<Rightarrow> Some None | Some (JStr s) \<Rightarrow> Some (Some s) | _ \<Rightarrow> None)"

definition asLastError :: "json option \<Rightarrow> LastError option option" where
  "asLastError v =
     (case v of
        Some JNull \<Rightarrow> Some None
      | Some (JObj kvs) \<Rightarrow>
          (case asString (property kvs ''message'') of
             None \<Rightarrow> None
           | Some m \<Rightarrow>
               (case asString (property kvs ''timestamp'') of
                  None \<Rightarrow> None
                | Some t \<Rightarrow>
                    (case Option.bind (asString (property kvs ''type'')) errorTypeOfString of
                       None \<Rightarrow> None
                     | Some ty \<Rightarrow>
                         Some (Some \<lparr>le_message = m, le_timestamp = t, le_type = ty\<rparr>))))
      | _ \<Rightarrow> None)"

definition asFallbackState :: "json \<Rightarrow> FallbackState option" where
  "asFallbackState j =
     (case j of
        JObj kvs \<Rightarrow>
          Option.bind (asBool (property kvs ''isInFallbackMode'')) (\<lambda>mode.
          Option.bind (asOptionalString (property kvs ''fallbackStartTime'')) (\<lambda>start.
          Option.bind (asNat (property kvs ''consecutiveFailures'')) (\<lambda>fails.
          Option.bind (asOptionalString (property kvs ''lastSwitchReason'')) (\<lambda>reason.
          Option.bind (asString (property kvs ''currentModel'')) (\<lambda>cur.
          Option.bind (asString (property kvs ''fallbackModel'')) (\<lambda>fb.
          Option.bind (asNullableString (property kvs ''lastSwitchTime'')) (\<lambda>switched.
          Option.bind (asNat (property kvs ''switchCount'')) (\<lambda>n.
          Option.bind (asLastError (property kvs ''lastError'')) (\<lambda>err.
          Option.bind (asString (property kvs ''lastUpdated'')) (\<lambda>upd.
            Some \<lparr>isInFallbackMode = mode, fallbackStartTime = start,
                  fs_consecutiveFailures = fails, lastSwitchReason = reason,
                  currentModel = cur, fallbackModel = fb, lastSwitchTime = switched,
                  switchCount = n, fs_lastError = err, lastUpdated = upd\<rparr>))))))))))
      | _ \<Rightarrow> None)"

text \<open>The table \<open>fallback_state\<close> holds at most the row with \<open>id = 1\<close>. \<open>db_ok\<close> says
  whether the database executes a statement; where it does not, the statement throws.\<close>

record fallback_row =
  is_fallback_active :: bool
  current_model :: "string option"
  fallback_start_time :: "string option"
  last_updated :: string
  state_data :: string

record sqlite =
  fallback_state :: "fallback_row option"
  db_ok :: bool

datatype persistence_error = SqliteError

text \<open>\<open>x || null\<close> for a string that may be \<open>undefined\<close>.\<close>

definition orNull :: "string option \<Rightarrow> string option" where
  "orNull v = (case v of None \<Rightarrow> None | Some s \<Rightarrow> (if s = [] then None else Some s))"

text \<open>\<open>SqliteFallbackPersistence.saveState\<close>: the transaction stores
  \<open>{...state, lastUpdated: now}\<close> as text with the base columns beside it, replacing the
  row.\<close>

definition sqlSaveState :: "world \<Rightarrow> string \<Rightarrow> FallbackState \<Rightarrow> sqlite \<Rightarrow> persistence_error + sqlite" where
  "sqlSaveState w now s db =
     (if db_ok db then
        Inr (db\<lparr>fallback_state :=
                  Some \<lparr>is_fallback_active = isInFallbackMode s,
                        current_model = orNull (Some (currentModel s)),
                        fallback_start_time = orNull (fallbackStartTime s),
                        last_updated = now,
                        state_data = JSON_stringify w (stateJson (s\<lparr>lastUpdated := now\<rparr>))\<rparr>\<rparr>)
      else Inl SqliteError)"

text \<open>\<open>SqliteFallbackPersistence.loadState\<close>: \<open>null\<close> (here \<open>None\<close>) without a row or on
  a database error; the parsed \<open>state_data\<close>; or, where that does not parse, an object
  built from the base columns.\<close>

definition sqlLoadState :: "world \<Rightarrow> sqlite \<Rightarrow> json option" where
  "sqlLoadState w db =
     (if db_ok db then
        (case fallback_state db of
           None \<Rightarrow> None
         | Some row \<Rightarrow>
             (case JSON_parse w (state_data row) of
                Some parsedState \<Rightarrow> Some parsedState
              | None \<Rightarrow>
                  Some (JObj [(''isInFallbackMode'', JBool (is_fallback_active row)),
                              (''consecutiveFailures'', JNum 0),
                              (''currentModel'', nullableString (current_model row)),
                              (''fallbackModel'',
                                 JStr (case orNull (current_model row) of None \<Rightarrow> [] | Some m \<Rightarrow> m)),
                              (''fallbackStartTime'', nullableString (fallback_start_time row)),
                              (''lastSwitchTime'', JNull),
                              (''switchCount'', JNum 0),
                              (''lastError'', JNull),
                              (''lastUpdated'', JStr (last_updated row))])))
      else None)"

section \<open>The fallback controller: \<open>FallbackService\<close> and \<open>FallbackManager\<close>\<close>

text \<open>
  The service holds its configuration, the fallback state, the statistics its methods
  write, its SQLite persistence and the events it has emitted. Of \<open>FallbackStats\<close> only
  the fields these methods touch are kept. The listeners this repository registers for
  \<open>modelSwitched\<close> and \<open>modelReset\<close> log and arm or clear the auto-reset timer; none
  throws, so \<open>emit\<close> returns. The timer of \<open>FallbackManager\<close> is the flag
  \<open>autoResetArmed\<close>; its firing is not part of a call and is not modelled.
\<close>

record FallbackConfig =
  enabled :: bool
  primaryModel :: string
  cfg_fallbackModel :: string
  triggerConditions :: "string list"
  maxRetries :: int
  retryDelay :: int
  cooldownMinutes :: int
  autoResetEnabled :: bool
  autoResetDelay :: int
  persistenceEnabled :: bool

record FallbackStats =
  totalSwitches :: nat
  successfulSwitches :: nat
  failedSwitches :: nat
  stats_lastSwitchTime :: "string option"
  errorCounts :: "ErrorType \<Rightarrow> nat"

datatype fallback_event =
  ModelSwitched string string ErrorType
  | ModelReset string string

record FallbackService =
  svc_config :: FallbackConfig
  svc_state :: FallbackState
  svc_stats :: FallbackStats
  persistence :: sqlite
  emitted :: "fallback_event list"

datatype fallback_error =
  FallbackNotEnabled
  | AlreadyInFallbackMode
  | ManagerNotInitialized

record trigger_result =
  tr_success :: bool
  tr_newModel :: string
  tr_previousModel :: string

text \<open>The state and statistics the constructor sets, before any persisted state is
  loaded.\<close>

definition newFallbackService :: "FallbackConfig \<Rightarrow> string \<Rightarrow> sqlite \<Rightarrow> FallbackService" where
  "newFallbackService cfg now db =
     \<lparr>svc_config = cfg,
      svc_state = \<lparr>isInFallbackMode = False, fallbackStartTime = None,
                   fs_consecutiveFailures = 0, lastSwitchReason = None,
                   currentModel = primaryModel cfg, fallbackModel = cfg_fallbackModel cfg,
                   lastSwitchTime = None, switchCount = 0, fs_lastError = None,
                   lastUpdated = now\<rparr>,
      svc_stats = \<lparr>totalSwitches = 0, successfulSwitches = 0, failedSwitches = 0,
                   stats_lastSwitchTime = None, errorCounts = (\<lambda>t. 0)\<rparr>,
      persistence = db,
      emitted = []\<rparr>"

text \<open>\<open>FallbackService.saveState\<close>: an error of the persistence is logged and swallowed.\<close>

definition svcSaveState :: "world \<Rightarrow> string \<Rightarrow> FallbackService \<Rightarrow> FallbackService" where
  "svcSaveState w now svc =
     (case sqlSaveState w now (svc_state svc) (persistence svc) of
        Inr db' \<Rightarrow> svc\<lparr>persistence := db'\<rparr>
      | Inl err \<Rightarrow> svc)"

text \<open>\<open>FallbackService.shouldTriggerFallback\<close>; a positive answer is counted in
  \<open>stats.errorCounts\<close>.\<close>

definition svcShouldTriggerFallback :: "FallbackService \<Rightarrow> thrown \<Rightarrow> bool \<times> FallbackService" where
  "svcShouldTriggerFallback svc e =
     (if \<not> enabled (svc_config svc) then (False, svc)
      else if isInFallbackMode (svc_state svc) then (False, svc)
      else if errorShouldTriggerFallback e then
        (True,
         svc\<lparr>svc_stats := (svc_stats svc)\<lparr>errorCounts :=
             (errorCounts (svc_stats svc))
               (getErrorType e := Suc (errorCounts (svc_stats svc) (getErrorType e)))\<rparr>\<rparr>)
      else (False, svc))"

text \<open>\<open>error?.message || String(error)\<close>.\<close>

definition messageOrString :: "thrown \<Rightarrow> string" where
  "messageOrString e =
     (case e of
        ErrorObject n m st rst \<Rightarrow> (if m \<noteq> [] then m else stringOf e)
      | NonError s msg st rst \<Rightarrow>
          (case msg of
             None \<Rightarrow> s
           | Some m \<Rightarrow> (if m \<noteq> [] then m else s))
      | Falsy s \<Rightarrow> s)"

definition svcPerformFallback :: "world \<Rightarrow> string \<Rightarrow> FallbackService \<Rightarrow> thrown \<Rightarrow> (fallback_error + string) \<times> FallbackService" where
  "svcPerformFallback w now svc e =
     (if \<not> enabled (svc_config svc) then (Inl FallbackNotEnabled, svc)
      else if isInFallbackMode (svc_state svc) then (Inl AlreadyInFallbackMode, svc)
      else
        (let svc1 = svc\<lparr>svc_stats := (svc_stats svc)\<lparr>totalSwitches :=
                          Suc (totalSwitches (svc_stats svc))\<rparr>\<rparr>;
             previous = currentModel (svc_state svc1);
             svc2 = svc1\<lparr>svc_state := (svc_state svc1)
                      \<lparr>isInFallbackMode := True,
                       currentModel := fallbackModel (svc_state svc1),
                       lastSwitchTime := Some now,
                       switchCount := Suc (switchCount (svc_state svc1)),
                       fs_lastError := Some \<lparr>le_message = messageOrString e,
                                             le_timestamp = now,
                                             le_type = getErrorType e\<rparr>\<rparr>\<rparr>;
             svc3 = svcSaveState w now svc2;
             svc4 = svc3\<lparr>svc_stats := (svc_stats svc3)
                      \<lparr>successfulSwitches := Suc (successfulSwitches (svc_stats svc3)),
                       stats_lastSwitchTime := lastSwitchTime (svc_state svc3)\<rparr>\<rparr>;
             svc5 = svc4\<lparr>emitted := emitted svc4 @
                      [ModelSwitched previous (currentModel (svc_state svc4)) (getErrorType e)]\<rparr>
         in (Inr (currentModel (svc_state svc5)), svc5)))"

text \<open>\<open>FallbackService.triggerFallback\<close>: the two guards throw; an error thrown by
  \<open>performFallback\<close> is caught and reported as \<open>success: false\<close>.\<close>

definition svcTriggerFallback :: "world \<Rightarrow> string \<Rightarrow> FallbackService \<Rightarrow> thrown \<Rightarrow> (fallback_error + trigger_result) \<times> FallbackService" where
  "svcTriggerFallback w now svc e =
     (if \<not> enabled (svc_config svc) then (Inl FallbackNotEnabled, svc)
      else if isInFallbackMode (svc_state svc) then (Inl AlreadyInFallbackMode, svc)
      else
        (let previous = currentModel (svc_state svc);
             new = fallbackModel (svc_state svc)
         in case svcPerformFallback w now svc e of
              (Inr m, svc') \<Rightarrow>
                (Inr \<lparr>tr_success = True, tr_newModel = new, tr_previousModel = previous\<rparr>, svc')
            | (Inl err, svc') \<Rightarrow>
                (Inr \<lparr>tr_success = False, tr_newModel = previous, tr_previousModel = previous\<rparr>, svc')))"

definition svcResetToPrimary :: "world \<Rightarrow> string \<Rightarrow> FallbackService \<Rightarrow> string \<times> FallbackService" where
  "svcResetToPrimary w now svc =
     (if \<not> isInFallbackMode (svc_state svc) then (currentModel (svc_state svc), svc)
      else
        (let previous = currentModel (svc_state svc);
             svc1 = svc\<lparr>svc_state := (svc_state svc)
                      \<lparr>isInFallbackMode := False,
                       currentModel := primaryModel (svc_config svc),
                       lastSwitchTime := Some now,
                       fs_lastError := None\<rparr>\<rparr>;
             svc2 = svcSaveState w now svc1;
             svc3 = svc2\<lparr>emitted := emitted svc2 @
                      [ModelReset previous (currentModel (svc_state svc2))]\<rparr>
         in (currentModel (svc_state svc3), svc3)))"

text \<open>A sequence of \<open>triggerFallback\<close> calls, one per error, whatever each returns or
  throws: the service afterwards.\<close>

fun triggerMany :: "world \<Rightarrow> string \<Rightarrow> thrown list \<Rightarrow> FallbackService \<Rightarrow> FallbackService" where
  "triggerMany w now [] svc = svc"
| "triggerMany w now (e # es) svc = triggerMany w now es (snd (svcTriggerFallback w now svc e))"

record FallbackManager =
  mgr_config :: FallbackConfig
  fallbackService :: "FallbackService option"
  autoResetArmed :: bool

definition newFallbackManager :: "FallbackConfig \<Rightarrow> string \<Rightarrow> sqlite \<Rightarrow> FallbackManager" where
  "newFallbackManager cfg now db =
     \<lparr>mgr_config = cfg,
      fallbackService = (if enabled cfg then Some (newFallbackService cfg now db) else None),
      autoResetArmed = False\<rparr>"

definition mgrShouldTriggerFallback :: "FallbackManager \<Rightarrow> thrown \<Rightarrow> bool \<times> FallbackManager" where
  "mgrShouldTriggerFallback fm e =
     (case fallbackService fm of
        None \<Rightarrow> (False, fm)
      | Some svc \<Rightarrow>
          (if \<not> enabled (mgr_config fm) then (False, fm)
           else (case svcShouldTriggerFallback svc e of
                   (b, svc') \<Rightarrow> (b, fm\<lparr>fallbackService := Some svc'\<rparr>))))"

text \<open>\<open>FallbackManager.triggerFallback\<close> passes the service's result or error on. The
  manager's \<open>modelSwitched\<close> listener arms the timer when auto-reset is enabled.\<close>

definition mgrTriggerFallback :: "world \<Rightarrow> string \<Rightarrow> FallbackManager \<Rightarrow> thrown \<Rightarrow> (fallback_error + trigger_result) \<times> FallbackManager" where
  "mgrTriggerFallback w now fm e =
     (case fallbackService fm of
        None \<Rightarrow> (Inl ManagerNotInitialized, fm)
      | Some svc \<Rightarrow>
          (if \<not> enabled (mgr_config fm) then (Inl ManagerNotInitialized, fm)
           else (case svcTriggerFallback w now svc e of
                   (r, svc') \<Rightarrow>
                     (r, fm\<lparr>fallbackService := Some svc',
                            autoResetArmed :=
                              (if length (emitted svc') > length (emitted svc)
                                  \<and> autoResetEnabled (mgr_config fm)
                               then True else autoResetArmed fm)\<rparr>))))"

definition mgrGetCurrentModel :: "FallbackManager \<Rightarrow> string" where
  "mgrGetCurrentModel fm =
     (case fallbackService fm of
        None \<Rightarrow> primaryModel (mgr_config fm)
      | Some svc \<Rightarrow>
          (if \<not> enabled (mgr_config fm) then primaryModel (mgr_config fm)
           else currentModel (svc_state svc)))"

definition mgrIsInFallbackMode :: "FallbackManager \<Rightarrow> bool" where
  "mgrIsInFallbackMode fm =
     (case fallbackService fm of
        None \<Rightarrow> False
      | Some svc \<Rightarrow> enabled (mgr_config fm) \<and> isInFallbackMode (svc_state svc))"

definition defaultFallbackConfig :: FallbackConfig where
  "defaultFallbackConfig =
     \<lparr>enabled = True, primaryModel = ''gemini-2.5-pro'', cfg_fallbackModel = ''gemini-2.5-flash'',
      triggerConditions = [''quota_exceeded'', ''rate_limit'', ''server_error''],
      maxRetries = 3, retryDelay = 1000, cooldownMinutes = 5, autoResetEnabled = True,
      autoResetDelay = 300000, persistenceEnabled = True\<rparr>"

definition emptyDb :: sqlite where
  "emptyDb = \<lparr>fallback_state = None, db_ok = True\<rparr>"

section \<open>Protocol translation and the request path: \<open>gemini-client.ts\<close>, \<open>RotationService\<close>\<close>

text \<open>
  An OpenAI message as \<open>openAIMessageToGemini\<close> reads it: its role, its content (a
  string, \<open>null\<close> or a list of parts), its tool calls and its \<open>tool_call_id\<close>. A tool
  call is \<open>usable\<close> when \<open>toolCall.type === 'function' && toolCall.function\<close> holds.
\<close>

datatype role = System | User | Assistant | Tool

datatype content_part =
  TextPart "string option"
  | ImageUrlPart string
  | OtherPart string

datatype message_content =
  ContentString string
  | ContentNull
  | ContentParts "content_part list"

record tool_call =
  tc_id :: string
  tc_usable :: bool
  tc_name :: string
  tc_arguments :: string

record OpenAIMessage =
  msg_role :: role
  msg_content :: message_content
  tool_calls :: "tool_call list option"
  tool_call_id :: "string option"

datatype gemini_part =
  Text string
  | FunctionCall string json
  | FunctionResponse string json
  | InlineData string "string option"
  | FileData string string

record Content =
  content_role :: string
  parts :: "gemini_part list"

text \<open>\<open>String.prototype.split\<close> with a one-character separator, and
  \<open>Array.prototype.join\<close>.\<close>

fun splitOn :: "char \<Rightarrow> string \<Rightarrow> string list" where
  "splitOn d [] = [[]]"
| "splitOn d (c # cs) =
     (if c = d then [] # splitOn d cs
      else (case splitOn d cs of [] \<Rightarrow> [[c]] | p # ps \<Rightarrow> (c # p) # ps))"

fun joinWith :: "char \<Rightarrow> string list \<Rightarrow> string" where
  "joinWith d [] = []"
| "joinWith d [p] = p"
| "joinWith d (p # q # ps) = p @ d # joinWith d (q # ps)"

text \<open>\<open>parseFunctionNameFromId\<close>: \<open>parts.slice(1, parts.length - 1)\<close> is the list without
  its first and its last element.\<close>

definition parseFunctionNameFromId :: "string \<Rightarrow> string" where
  "parseFunctionNameFromId toolCallId =
     (let ps = splitOn (CHR ''_'') toolCallId in
      if length ps > 2 \<and> hd ps = ''call'' then joinWith (CHR ''_'') (butlast (tl ps))
      else ''unknown_tool_from_id'')"

text \<open>Modelled from the spec: the id the stream transformer gives a tool call. The
  transformer's file is not among the sources; the spec describes the id as a
  two-delimiter encoding of the name plus a random suffix, and the client's comment gives
  the format \<open>call_{functionName}_{uuid}\<close>.\<close>

definition toolCallId :: "string \<Rightarrow> string \<Rightarrow> string" where
  "toolCallId name suffix = ''call_'' @ name @ ''_'' @ suffix"

definition partJson :: "content_part \<Rightarrow> json" where
  "partJson p =
     (case p of
        TextPart t \<Rightarrow> JObj ([(''type'', JStr ''text'')] @ optionalString ''text'' t)
      | ImageUrlPart u \<Rightarrow>
          JObj [(''type'', JStr ''image_url''), (''image_url'', JObj [(''url'', JStr u)])]
      | OtherPart ty \<Rightarrow> JObj [(''type'', JStr ty)])"

text \<open>The payload of a tool response: a parsed object as it is, any other parsed value
  and an unparsable content under \<open>output\<close>. \<open>JSON.parse(null)\<close> is \<open>null\<close>; a list of
  parts has the string form \<open>[object Object],...\<close>, which does not parse.\<close>

definition responsePayload :: "world \<Rightarrow> message_content \<Rightarrow> json" where
  "responsePayload w c =
     (case c of
        ContentString s \<Rightarrow>
          (case JSON_parse w s of
             Some (JObj kvs) \<Rightarrow> JObj kvs
           | Some parsed \<Rightarrow> JObj [(''output'', parsed)]
           | None \<Rightarrow> JObj [(''output'', JStr s)])
      | ContentNull \<Rightarrow> JObj [(''output'', JNull)]
      | ContentParts ps \<Rightarrow> JObj [(''output'', JArr (map partJson ps))])"

text \<open>The function-call parts of an assistant message: a tool call whose arguments do
  not parse is dropped with a warning.\<close>

fun toolCallParts :: "world \<Rightarrow> tool_call list \<Rightarrow> gemini_part list" where
  "toolCallParts w [] = []"
| "toolCallParts w (tc # tcs) =
     (if tc_usable tc then
        (case JSON_parse w (tc_arguments tc) of
           Some args \<Rightarrow> FunctionCall (tc_name tc) args # toolCallParts w tcs
         | None \<Rightarrow> toolCallParts w tcs)
      else toolCallParts w tcs)"

text \<open>An image part: a \<open>data:\<close> URL is cut at the first comma, its mime type taken
  between the first colon and the first semicolon after it; any other URL is passed as a
  file reference.\<close>

definition imagePart :: "string \<Rightarrow> gemini_part" where
  "imagePart imageUrl =
     (if startsWith imageUrl ''data:'' then
        (let pieces = splitOn (CHR '','') imageUrl;
             mimePart = hd pieces;
             dataPart = (case tl pieces of [] \<Rightarrow> None | d # ds \<Rightarrow> Some d);
             mimeType = hd (splitOn (CHR '';'') (hd (tl (splitOn (CHR '':'') mimePart))))
         in InlineData mimeType dataPart)
      else FileData ''image/jpeg'' imageUrl)"

fun userParts :: "content_part list \<Rightarrow> gemini_part list" where
  "userParts [] = []"
| "userParts (TextPart t # ps) = Text (case t of None \<Rightarrow> [] | Some s \<Rightarrow> s) # userParts ps"
| "userParts (ImageUrlPart u # ps) = imagePart u # userParts ps"
| "userParts (OtherPart ty # ps) = userParts ps"

definition openAIMessageToGemini :: "world \<Rightarrow> OpenAIMessage \<Rightarrow> Content" where
  "openAIMessageToGemini w msg =
     (if msg_role msg = Assistant then
        \<lparr>content_role = ''model'',
         parts = (case msg_content msg of
                    ContentString s \<Rightarrow> (if s \<noteq> [] then [Text s] else [])
                  | _ \<Rightarrow> [])
                 @ (case tool_calls msg of None \<Rightarrow> [] | Some tcs \<Rightarrow> toolCallParts w tcs)\<rparr>
      else if msg_role msg = Tool then
        \<lparr>content_role = ''user'',
         parts = [FunctionResponse
                    (parseFunctionNameFromId (case tool_call_id msg of None \<Rightarrow> [] | Some i \<Rightarrow> i))
                    (responsePayload w (msg_content msg))]\<rparr>
      else
        (case msg_content msg of
           ContentString s \<Rightarrow> \<lparr>content_role = ''user'', parts = [Text s]\<rparr>
         | ContentParts ps \<Rightarrow> \<lparr>content_role = ''user'', parts = userParts ps\<rparr>
         | ContentNull \<Rightarrow> \<lparr>content_role = ''user'', parts = [Text []]\<rparr>))"

subsection \<open>\<open>RotationService\<close>\<close>

record RotationService =
  isEnabled :: bool
  rotationManager :: "manager option"

text \<open>\<open>getDefaultApiKey\<close> reads \<open>GEMINI_API_KEY\<close> from the environment.\<close>

definition getDefaultApiKey :: "string option \<Rightarrow> rotation_error + string" where
  "getDefaultApiKey env =
     (case env of
        None \<Rightarrow> Inl DefaultApiKeyNotSet
      | Some k \<Rightarrow> (if k = [] then Inl DefaultApiKeyNotSet else Inr k))"

text \<open>\<open>RotationService.getApiKey\<close>: an error of the rotation manager is caught and the
  default key returned in its place.\<close>

definition getApiKey :: "(nat \<Rightarrow> nat) \<Rightarrow> int \<Rightarrow> string option \<Rightarrow> RotationService \<Rightarrow> (rotation_error + string) \<times> RotationService" where
  "getApiKey rnd now env rs =
     (case rotationManager rs of
        None \<Rightarrow> (getDefaultApiKey env, rs)
      | Some m \<Rightarrow>
          (if \<not> isEnabled rs then (getDefaultApiKey env, rs)
           else (case getNextApiKey rnd now m of
                   (Inr k, m') \<Rightarrow> (Inr k, rs\<lparr>rotationManager := Some m'\<rparr>)
                 | (Inl err, m') \<Rightarrow> (getDefaultApiKey env, rs\<lparr>rotationManager := Some m'\<rparr>))))"

definition reportUsage :: "int \<Rightarrow> RotationService \<Rightarrow> string \<Rightarrow> bool \<Rightarrow> string option \<Rightarrow> RotationService" where
  "reportUsage now rs apiKey ok errorType =
     (case rotationManager rs of
        None \<Rightarrow> rs
      | Some m \<Rightarrow>
          (if \<not> isEnabled rs then rs
           else rs\<lparr>rotationManager := Some (reportKeyUsage m apiKey ok errorType now)\<rparr>))"

subsection \<open>\<open>GeminiApiClient\<close>\<close>

text \<open>
  The client after its initialisation: the two services (\<open>None\<close> where the
  initialisation failed), whether the configuration has a user memory
  (\<open>useInternalPrompt\<close>), the environment's \<open>GEMINI_API_KEY\<close>, and the log of the
  attempts that reached \<open>GeminiChat.sendMessageStream\<close>. \<open>configModel\<close> is
  \<open>this.config.getModel()\<close>; nothing in the client changes it. An attempt records
  the model the backend call runs under (\<open>at_model\<close>: the content generator is made
  with \<open>model: this.config.getModel()\<close> and the chat is built from \<open>this.config\<close>),
  the \<open>currentModel\<close> the method computed from the fallback manager, which it logs and
  passes nowhere (\<open>at_loggedModel\<close>), the key the content generator was made with, and
  the translated system instruction, history and message. A request runs on its own
  here: the auto-reset timer does not fire and no other request changes the services
  while it runs. An outcome report to the
  rotation service is started without being awaited; here it takes effect at once. Tools
  and the tool choice do not bear on the control flow and are left out.
\<close>

record Attempt =
  at_model :: string
  at_loggedModel :: string
  at_apiKey :: "string option"
  at_systemInstruction :: "Content option"
  at_history :: "Content list"
  at_message :: "gemini_part list"

record GeminiApiClient =
  rotationService :: "RotationService option"
  fallbackManager :: "FallbackManager option"
  useInternalPrompt :: bool
  configModel :: string
  env_GEMINI_API_KEY :: "string option"
  invocations :: "Attempt list"

datatype stream_handle = GeminiStream nat

definition noMessageToSend :: thrown where
  "noMessageToSend = ErrorObject ''Error'' ''No message to send.'' None None"

text \<open>\<open>messages.findIndex(msg => msg.role === 'system')\<close> and \<open>messages.splice(i, 1)\<close>:
  the first system message and the list without it.\<close>

fun spliceSystem :: "OpenAIMessage list \<Rightarrow> OpenAIMessage option \<times> OpenAIMessage list" where
  "spliceSystem [] = (None, [])"
| "spliceSystem (m # ms) =
     (if msg_role m = System then (Some m, ms)
      else (case spliceSystem ms of (found, rest) \<Rightarrow> (found, m # rest)))"

definition isTruthyKey :: "string option \<Rightarrow> bool" where
  "isTruthyKey k = (case k of None \<Rightarrow> False | Some s \<Rightarrow> s \<noteq> [])"

text \<open>\<open>if (this.rotationService && apiKey) this.rotationService.reportUsage(apiKey, ok)\<close>.\<close>

definition clientReport :: "int \<Rightarrow> string option \<Rightarrow> bool \<Rightarrow> GeminiApiClient \<Rightarrow> GeminiApiClient" where
  "clientReport now apiKey ok c =
     (case rotationService c of
        None \<Rightarrow> c
      | Some rs \<Rightarrow>
          (case apiKey of
             None \<Rightarrow> c
           | Some k \<Rightarrow>
               (if k = [] then c
                else c\<lparr>rotationService := Some (reportUsage now rs k ok None)\<rparr>)))"

text \<open>Whether the manager would still answer a triggering error with \<open>true\<close>.\<close>

definition canTrigger :: "FallbackManager option \<Rightarrow> bool" where
  "canTrigger f =
     (case f of
        None \<Rightarrow> False
      | Some fm \<Rightarrow>
          (case fallbackService fm of
             None \<Rightarrow> False
           | Some svc \<Rightarrow>
               enabled (mgr_config fm) \<and> enabled (svc_config svc)
                 \<and> \<not> isInFallbackMode (svc_state svc)))"

text \<open>\<open>executeStreamRequest\<close>. The checks before the \<open>try\<close> throw to the caller; inside
  it, an error of the backend call goes through the fallback decision, and a fallback
  that was triggered ends in the recursive call.\<close>

function executeStreamRequest :: "world \<Rightarrow> int \<Rightarrow> string \<Rightarrow> GeminiApiClient \<Rightarrow> string \<Rightarrow> OpenAIMessage list \<Rightarrow> string option \<Rightarrow> (thrown + stream_handle) \<times> GeminiApiClient" where
  "executeStreamRequest w now stamp c model messages apiKey =
     (let currentModel' = (case fallbackManager c of
                             None \<Rightarrow> model
                           | Some fm \<Rightarrow> mgrGetCurrentModel fm);
          extracted = (if useInternalPrompt c then (None, messages) else spliceSystem messages);
          history = map (openAIMessageToGemini w) (snd extracted)
      in if history = [] then (Inl noMessageToSend, c)
         else
           (case (if isTruthyKey apiKey then createContentGenerator w (length (invocations c))
                  else None) of
              Some err \<Rightarrow> (Inl err, c)
            | None \<Rightarrow>
                (let c1 = c\<lparr>invocations := invocations c @
                            [\<lparr>at_model = configModel c, at_loggedModel = currentModel',
                              at_apiKey = apiKey,
                              at_systemInstruction =
                                map_option (openAIMessageToGemini w) (fst extracted),
                              at_history = butlast history,
                              at_message = parts (last history)\<rparr>]\<rparr>
                 in case backend w (length (invocations c)) of
                      None \<Rightarrow>
                        (Inr (GeminiStream (length (invocations c))),
                         clientReport now apiKey True c1)
                    | Some err \<Rightarrow>
                        (case fallbackManager c1 of
                           None \<Rightarrow> (Inl err, clientReport now apiKey False c1)
                         | Some fm \<Rightarrow>
                             (case mgrShouldTriggerFallback fm err of
                                (shouldFallback, fm1) \<Rightarrow>
                                  (if shouldFallback then
                                     (case mgrTriggerFallback w stamp fm1 err of
                                        (Inr fallbackResult, fm2) \<Rightarrow>
                                          executeStreamRequest w now stamp
                                            (c1\<lparr>fallbackManager := Some fm2\<rparr>)
                                            (mgrGetCurrentModel fm2) (snd extracted) apiKey
                                      | (Inl fallbackError, fm2) \<Rightarrow>
                                          (Inl err,
                                           clientReport now apiKey False
                                             (c1\<lparr>fallbackManager := Some fm2\<rparr>)))
                                   else
                                     (Inl err,
                                      clientReport now apiKey False
                                        (c1\<lparr>fallbackManager := Some fm1\<rparr>))))))))"
  by pat_completeness auto
termination
  by (relation "measure (\<lambda>(w, now, stamp, c, model, messages, apiKey).
                  if canTrigger (fallbackManager c) then 1 else 0)")
     (auto simp: mgrTriggerFallback_def svcTriggerFallback_def svcPerformFallback_def
        svcSaveState_def mgrShouldTriggerFallback_def svcShouldTriggerFallback_def
        canTrigger_def Let_def
        split: option.splits if_splits prod.splits sum.splits)

declare executeStreamRequest.simps [simp del]

text \<open>\<open>sendMessageStream\<close>: a failure to get a rotated key is logged, and the request goes
  on without one.\<close>

definition sendMessageStream :: "world \<Rightarrow> (nat \<Rightarrow> nat) \<Rightarrow> int \<Rightarrow> string \<Rightarrow> GeminiApiClient \<Rightarrow> string \<Rightarrow> OpenAIMessage list \<Rightarrow> (thrown + stream_handle) \<times> GeminiApiClient" where
  "sendMessageStream w rnd now stamp c model messages =
     (case rotationService c of
        None \<Rightarrow> executeStreamRequest w now stamp c model messages None
      | Some rs \<Rightarrow>
          (case getApiKey rnd now (env_GEMINI_API_KEY c) rs of
             (Inr k, rs') \<Rightarrow>
               executeStreamRequest w now stamp (c\<lparr>rotationService := Some rs'\<rparr>) model messages (Some k)
           | (Inl err, rs') \<Rightarrow>
               executeStreamRequest w now stamp (c\<lparr>rotationService := Some rs'\<rparr>) model messages None))"

text \<open>The checks of \<open>executeStreamRequest\<close> before its \<open>try\<close>: the messages that remain
  once the system message is taken out, and whether the request gets as far as the
  backend call (there is a message to send, and the content generator is created) when
  \<open>i\<close> backend calls have been made.\<close>

definition remaining :: "bool \<Rightarrow> OpenAIMessage list \<Rightarrow> OpenAIMessage list" where
  "remaining internalPrompt messages =
     (if internalPrompt then messages else snd (spliceSystem messages))"

definition sendable :: "world \<Rightarrow> bool \<Rightarrow> nat \<Rightarrow> OpenAIMessage list \<Rightarrow> string option \<Rightarrow> bool" where
  "sendable w internalPrompt i messages apiKey =
     (remaining internalPrompt messages \<noteq> []
      \<and> (if isTruthyKey apiKey then createContentGenerator w i = None else True))"

text \<open>The switch count of the manager's service (0 without a service).\<close>

definition mgrSwitchCount :: "FallbackManager \<Rightarrow> nat" where
  "mgrSwitchCount fm =
     (case fallbackService fm of None \<Rightarrow> 0 | Some svc \<Rightarrow> switchCount (svc_state svc))"

section \<open>Example values\<close>

text \<open>Concrete worlds, errors, services and clients for the closed theorems below.\<close>

definition serverError500 :: thrown where
  "serverError500 = ErrorObject ''Error'' ''internal error'' (Some 500) None"

definition boomError :: thrown where
  "boomError = ErrorObject ''Error'' ''boom'' None None"


text \<open>A world whose backend accepts every call, with a \<open>JSON.parse\<close> that knows the
  empty object.\<close>

definition exampleWorld :: world where
  "exampleWorld =
     \<lparr>JSON_stringify = (\<lambda>j. ''{}''),
      JSON_parse = (\<lambda>s. if s = ''{}'' then Some (JObj []) else None),
      backend = (\<lambda>i. None),
      createContentGenerator = (\<lambda>i. None)\<rparr>"

text \<open>A world whose backend answers the first call with a 500 and the second with
  another error.\<close>

definition failingWorld :: world where
  "failingWorld =
     exampleWorld\<lparr>backend := (\<lambda>i. if i = 0 then Some serverError500 else Some boomError)\<rparr>"

text \<open>The service after its first switch to the fallback model.\<close>

definition serviceInFallback :: FallbackService where
  "serviceInFallback =
     snd (svcTriggerFallback exampleWorld ''t1''
            (newFallbackService defaultFallbackConfig ''t0'' emptyDb) serverError500)"


definition exampleState :: FallbackState where
  "exampleState =
     \<lparr>isInFallbackMode = True, fallbackStartTime = None, fs_consecutiveFailures = 2,
      lastSwitchReason = Some ''quota'', currentModel = ''gemini-2.5-flash'',
      fallbackModel = ''gemini-2.5-flash'',
      lastSwitchTime = Some ''2025-01-01T00:00:00.000Z'', switchCount = 1,
      fs_lastError = Some \<lparr>le_message = ''Quota exceeded'',
                           le_timestamp = ''2025-01-01T00:00:00.000Z'',
                           le_type = GENERIC_QUOTA_EXCEEDED\<rparr>,
      lastUpdated = ''2024-12-31T00:00:00.000Z''\<rparr>"

text \<open>A world whose \<open>JSON.parse\<close> reads back what its \<open>JSON.stringify\<close> wrote for the
  example state saved at the given time.\<close>

definition storeWorld :: world where
  "storeWorld =
     exampleWorld
       \<lparr>JSON_stringify :=
          (\<lambda>j. if j = stateJson (exampleState\<lparr>lastUpdated := ''2025-01-02T00:00:00.000Z''\<rparr>)
                then ''S'' else ''?''),
        JSON_parse :=
          (\<lambda>t. if t = ''S''
                then Some (stateJson (exampleState\<lparr>lastUpdated := ''2025-01-02T00:00:00.000Z''\<rparr>))
                else None)\<rparr>"

definition systemBrief :: OpenAIMessage where
  "systemBrief =
     \<lparr>msg_role = System, msg_content = ContentString ''be brief'', tool_calls = None,
      tool_call_id = None\<rparr>"

definition userHello :: OpenAIMessage where
  "userHello =
     \<lparr>msg_role = User, msg_content = ContentString ''hello'', tool_calls = None,
      tool_call_id = None\<rparr>"

text \<open>A client whose only rotated key has failed three times at time 0 and is cooling
  down, with no \<open>GEMINI_API_KEY\<close> in the environment.\<close>

definition coolingManager :: manager where
  "coolingManager = failMany 3 ''k1'' 0 (freshManager scenarioRotationConfig [''k1''])"

definition coolingClient :: GeminiApiClient where
  "coolingClient =
     \<lparr>rotationService = Some \<lparr>isEnabled = True, rotationManager = Some coolingManager\<rparr>,
      fallbackManager = Some (newFallbackManager defaultFallbackConfig ''t0'' emptyDb),
      useInternalPrompt = False,
      configModel = ''gemini-2.5-pro'',
      env_GEMINI_API_KEY = None,
      invocations = []\<rparr>"

text \<open>A client without rotation, in primary mode.\<close>

definition primaryClient :: GeminiApiClient where
  "primaryClient =
     \<lparr>rotationService = None,
      fallbackManager = Some (newFallbackManager defaultFallbackConfig ''t0'' emptyDb),
      useInternalPrompt = False,
      configModel = ''gemini-2.5-pro'',
      env_GEMINI_API_KEY = None,
      invocations = []\<rparr>"

section \<open>Theorems\<close>

text \<open>
  C10. Reporting an outcome for a key that is not among the configured keys changes
  nothing: the manager comes back as it was, with every key's counters, status and
  cooldown, the current index, the request total and the persistence file untouched.
\<close>

theorem reportKeyUsage_unknown_key_noop:
  assumes "apiKey \<notin> key ` set (keys m)"
  shows "reportKeyUsage m apiKey success errorType now = m"
proof -
  have "findKey apiKey ks = None" if "apiKey \<notin> key ` set ks" for ks
    using that by (induction ks) auto
  then show ?thesis
    using assms by (simp add: reportKeyUsage_def)
qed

theorem reportKeyUsage_unknown_key_noop_witness:
  "reportKeyUsage (freshManager scenarioRotationConfig [''k1'', ''k2'']) ''zz'' False (Some ''quota'') 5
     = freshManager scenarioRotationConfig [''k1'', ''k2'']"
  by (rule reportKeyUsage_unknown_key_noop) (simp add: freshManager_def freshKey_def)

text \<open>
  C1. Under round-robin with all keys active and nothing reported in between, the claim
  expects the keys in configuration order, \<open>k1, k2, k3, k1, k2\<close>. The code returns from
  \<open>getNextApiKey\<close> without calling \<open>moveToNextKey\<close> when the current key is available,
  so the index only moves past unavailable keys: five acquisitions over three fresh keys
  return \<open>k1\<close> five times.
\<close>

theorem getNextApiKey_repeats_current_key:
  "acquireMany rnd now 5 (freshManager scenarioRotationConfig [''k1'', ''k2'', ''k3''])
     = [Inr ''k1'', Inr ''k1'', Inr ''k1'', Inr ''k1'', Inr ''k1'']"
  by (simp add: freshManager_def freshKey_def scenarioRotationConfig_def getNextApiKey_def
      isKeyAvailable_def updateKeyUsage_def saveState_def numeral_eq_Suc)

text \<open>
  C2. With \<open>maxConsecutiveFailures = 3\<close> and \<open>cooldownPeriod = 600000\<close>, three failures
  reported at time 0 put the key in cooldown until 600000; an acquisition at time 1000
  finds no key; an acquisition at time 600001 returns the key and flips it to active.
  The claim expects \<open>consecutiveFailures = 0\<close> then; \<open>isKeyAvailable\<close> resets only
  \<open>status\<close> and \<open>cooldownUntil\<close>, and the counter is still 3.
\<close>

theorem cooldown_expiry_keeps_consecutiveFailures:
  "(let m = failMany 3 ''k1'' 0 (freshManager scenarioRotationConfig [''k1''])
    in map status (keys m) = [Failed]
     \<and> map cooldownUntil (keys m) = [Some 600000]
     \<and> fst (getNextApiKey rnd 1000 m) = Inl NoAvailableApiKeysFound
     \<and> fst (getNextApiKey rnd 600001 m) = Inr ''k1''
     \<and> map status (keys (snd (getNextApiKey rnd 600001 m))) = [Active]
     \<and> map consecutiveFailures (keys (snd (getNextApiKey rnd 600001 m))) = [3])"
  by (simp add: freshManager_def freshKey_def scenarioRotationConfig_def getNextApiKey_def
      isKeyAvailable_def updateKeyUsage_def saveState_def reportKeyUsage_def
      reportFailure_def moveToNextKey_def numeral_eq_Suc Let_def)

subsection \<open>Error classification\<close>

lemma getErrorType_rate_limit_exceeded_429:
  "getErrorType (ErrorObject ''Error'' ''rate limit exceeded'' (Some 429) None)
     = GENERIC_QUOTA_EXCEEDED"
  by (simp add: getErrorType_def isProQuotaExceededError_def isGenericQuotaExceededError_def
      isQuotaExceededError_def isTruthy_def errorMessage_def toLowerCase_def toLowerChar_def
      proQuotaKeywords_def quotaKeywords_def)

lemma getErrorType_slow_down_429:
  "getErrorType (ErrorObject ''Error'' ''slow down'' (Some 429) None) = RATE_LIMIT"
  by (simp add: getErrorType_def isProQuotaExceededError_def isGenericQuotaExceededError_def
      isQuotaExceededError_def isTruthy_def errorMessage_def toLowerCase_def toLowerChar_def
      proQuotaKeywords_def quotaKeywords_def isRateLimitError_def getErrorStatus_def)

lemma getErrorType_serverError500: "getErrorType serverError500 = SERVER_ERROR"
  by (simp add: serverError500_def getErrorType_def isProQuotaExceededError_def
      isGenericQuotaExceededError_def isQuotaExceededError_def isTruthy_def errorMessage_def
      toLowerCase_def toLowerChar_def proQuotaKeywords_def quotaKeywords_def
      isRateLimitError_def rateLimitKeywords_def getErrorStatus_def isServerError_def)



text \<open>
  C4, as amended. The classification takes the first match in the order pro quota,
  generic quota, rate limit, server error, network error, unknown: an error has a kind
  exactly when its own test holds and every earlier test fails. The quota wording list
  contains \<open>rate limit exceeded\<close>, and the quota tests come before the rate-limit test,
  so an error with status 429 and message \<open>rate limit exceeded\<close> is a generic quota
  error; a 429 whose message has no quota wording is a rate-limit error.
\<close>

theorem getErrorType_first_match_wins:
  "(getErrorType e = PRO_QUOTA_EXCEEDED \<longleftrightarrow> isProQuotaExceededError e)
   \<and> (getErrorType e = GENERIC_QUOTA_EXCEEDED \<longleftrightarrow>
        \<not> isProQuotaExceededError e \<and> isQuotaExceededError e)
   \<and> (getErrorType e = RATE_LIMIT \<longleftrightarrow>
        \<not> isProQuotaExceededError e \<and> \<not> isQuotaExceededError e \<and> isRateLimitError e)
   \<and> (getErrorType e = SERVER_ERROR \<longleftrightarrow>
        \<not> isProQuotaExceededError e \<and> \<not> isQuotaExceededError e \<and> \<not> isRateLimitError e
        \<and> isServerError e)
   \<and> (getErrorType e = NETWORK_ERROR \<longleftrightarrow>
        \<not> isProQuotaExceededError e \<and> \<not> isQuotaExceededError e \<and> \<not> isRateLimitError e
        \<and> \<not> isServerError e \<and> isNetworkWording e)
   \<and> (getErrorType e = UNKNOWN_ERROR \<longleftrightarrow>
        \<not> isProQuotaExceededError e \<and> \<not> isQuotaExceededError e \<and> \<not> isRateLimitError e
        \<and> \<not> isServerError e \<and> \<not> isNetworkWording e)
   \<and> getErrorType (ErrorObject ''Error'' ''rate limit exceeded'' (Some 429) None)
        = GENERIC_QUOTA_EXCEEDED
   \<and> getErrorType (ErrorObject ''Error'' ''slow down'' (Some 429) None) = RATE_LIMIT"
  unfolding getErrorType_rate_limit_exceeded_429 getErrorType_slow_down_429
  by (simp add: getErrorType_def isGenericQuotaExceededError_def)

text \<open>The claim as stated fails: the error of its example is not classified as a
  rate-limit error.\<close>

theorem rate_limit_exceeded_429_is_not_RATE_LIMIT:
  "getErrorType (ErrorObject ''Error'' ''rate limit exceeded'' (Some 429) None) \<noteq> RATE_LIMIT"
  by (simp add: getErrorType_rate_limit_exceeded_429)

subsection \<open>The fallback controller\<close>

lemma svcTriggerFallback_in_fallback:
  "isInFallbackMode (svc_state svc) \<Longrightarrow>
   svcTriggerFallback w now svc e =
     (Inl (if enabled (svc_config svc) then AlreadyInFallbackMode else FallbackNotEnabled), svc)"
  by (simp add: svcTriggerFallback_def)

lemma triggerMany_in_fallback:
  "isInFallbackMode (svc_state svc) \<Longrightarrow> triggerMany w now es svc = svc"
  by (induction es) (simp_all add: svcTriggerFallback_in_fallback)

lemma serviceInFallback_facts:
  "isInFallbackMode (svc_state serviceInFallback)"
  "switchCount (svc_state serviceInFallback) = 1"
  "enabled (svc_config serviceInFallback)"
  "currentModel (svc_state serviceInFallback) = ''gemini-2.5-flash''"
  by (simp_all add: serviceInFallback_def svcTriggerFallback_def svcPerformFallback_def
      newFallbackService_def defaultFallbackConfig_def svcSaveState_def sqlSaveState_def
      emptyDb_def Let_def)

text \<open>
  C3, as amended. Calling \<open>triggerFallback\<close> while the service is already in fallback
  mode throws (\<open>Already in fallback mode\<close>, or \<open>Fallback is not enabled\<close> when the
  configuration is disabled) and performs no transition: the service, with its state and
  its \<open>switchCount\<close>, is left as it was, after one such call and after any sequence of
  them.
\<close>

theorem triggerFallback_in_fallback_mode_throws:
  assumes "isInFallbackMode (svc_state svc)"
  shows "svcTriggerFallback w now svc e =
           (Inl (if enabled (svc_config svc) then AlreadyInFallbackMode else FallbackNotEnabled),
            svc)
         \<and> triggerMany w now es svc = svc
         \<and> switchCount (svc_state (triggerMany w now es svc)) = switchCount (svc_state svc)"
  using assms by (simp add: svcTriggerFallback_in_fallback triggerMany_in_fallback)

theorem triggerFallback_in_fallback_mode_throws_witness:
  "isInFallbackMode (svc_state serviceInFallback)
   \<and> svcTriggerFallback exampleWorld ''t2'' serviceInFallback serverError500
       = (Inl AlreadyInFallbackMode, serviceInFallback)
   \<and> switchCount (svc_state (triggerMany exampleWorld ''t2'' [serverError500, boomError]
                                serviceInFallback)) = 1"
  using triggerFallback_in_fallback_mode_throws
    [of serviceInFallback exampleWorld "''t2''" serverError500 "[serverError500, boomError]"]
  by (simp add: serviceInFallback_facts del: triggerMany.simps)

text \<open>The claim as stated fails: in fallback mode the call returns nothing to the
  caller.\<close>

theorem triggerFallback_in_fallback_mode_returns_nothing:
  "\<not> (\<exists>r. fst (svcTriggerFallback exampleWorld ''t2'' serviceInFallback serverError500) = Inr r)"
  by (simp add: svcTriggerFallback_in_fallback serviceInFallback_facts)




subsection \<open>Persistence of the fallback state\<close>

lemma errorTypeOfString_errorTypeString: "errorTypeOfString (errorTypeString t) = Some t"
  by (cases t) (simp_all add: errorTypeOfString_def errorTypeString_def)

lemma asLastError_lastErrorJson: "asLastError (Some (lastErrorJson v)) = Some v"
  by (cases v)
     (simp_all add: asLastError_def lastErrorJson_def property_def asString_def
        errorTypeOfString_errorTypeString)

lemma asFallbackState_stateJson: "asFallbackState (stateJson s) = Some s"
proof (cases "fallbackStartTime s"; cases "lastSwitchReason s"; cases "lastSwitchTime s")
qed (simp_all add: asFallbackState_def stateJson_def property_def optionalString_def
      nullableString_def asBool_def asString_def asNat_def asOptionalString_def
      asNullableString_def asLastError_lastErrorJson)

text \<open>
  C8. Saving a state and loading it again gives the state back with every field as it
  was, except \<open>lastUpdated\<close>, which holds the time of the save. The database must
  execute the statements, and \<open>JSON.parse\<close> must read back the text \<open>JSON.stringify\<close>
  wrote for the saved object.
\<close>

theorem saveState_then_loadState:
  assumes "db_ok db"
    and "JSON_parse w (JSON_stringify w (stateJson (s\<lparr>lastUpdated := now\<rparr>)))
           = Some (stateJson (s\<lparr>lastUpdated := now\<rparr>))"
  shows "\<exists>db'. sqlSaveState w now s db = Inr db'
           \<and> Option.bind (sqlLoadState w db') asFallbackState = Some (s\<lparr>lastUpdated := now\<rparr>)"
  using assms by (simp add: sqlSaveState_def sqlLoadState_def asFallbackState_stateJson)

theorem saveState_then_loadState_witness:
  "\<exists>db'. sqlSaveState storeWorld ''2025-01-02T00:00:00.000Z'' exampleState emptyDb = Inr db'
      \<and> Option.bind (sqlLoadState storeWorld db') asFallbackState
          = Some (exampleState\<lparr>lastUpdated := ''2025-01-02T00:00:00.000Z''\<rparr>)"
  by (rule saveState_then_loadState) (simp_all add: emptyDb_def storeWorld_def exampleWorld_def)

subsection \<open>Tool-call ids\<close>

lemma splitOn_not_Nil: "splitOn d s \<noteq> []"
  by (induction s) (auto split: list.splits)

lemma splitOn_no_delimiter: "d \<notin> set s \<Longrightarrow> splitOn d s = [s]"
  by (induction s) auto

lemma splitOn_append_delimiter: "splitOn d (a @ d # b) = splitOn d a @ splitOn d b"
  by (induction a) (auto split: list.splits simp: splitOn_not_Nil)

lemma joinWith_splitOn: "joinWith d (splitOn d s) = s"
proof (induction s)
  case Nil
  show ?case by simp
next
  case (Cons c cs)
  show ?case
  proof (cases "splitOn d cs")
    case Nil
    then show ?thesis using splitOn_not_Nil by blast
  next
    case (Cons p ps)
    with Cons.IH show ?thesis by (cases ps) auto
  qed
qed

lemma splitOn_toolCallId:
  assumes "CHR ''_'' \<notin> set suffix"
  shows "splitOn (CHR ''_'') (toolCallId name suffix)
           = ''call'' # splitOn (CHR ''_'') name @ [suffix]"
proof -
  have "toolCallId name suffix = ''call'' @ CHR ''_'' # (name @ CHR ''_'' # suffix)"
    by (simp add: toolCallId_def)
  then have "splitOn (CHR ''_'') (toolCallId name suffix)
      = splitOn (CHR ''_'') ''call'' @ splitOn (CHR ''_'') name @ splitOn (CHR ''_'') suffix"
    by (simp only: splitOn_append_delimiter)
  moreover have "splitOn (CHR ''_'') ''call'' = [''call'']" by simp
  ultimately show ?thesis using assms by (simp add: splitOn_no_delimiter)
qed

lemma parseFunctionNameFromId_toolCallId:
  assumes "CHR ''_'' \<notin> set suffix"
  shows "parseFunctionNameFromId (toolCallId name suffix) = name"
proof -
  obtain p ps where sp: "splitOn (CHR ''_'') name = p # ps"
    using splitOn_not_Nil by (cases "splitOn (CHR ''_'') name") auto
  have "butlast (tl (''call'' # splitOn (CHR ''_'') name @ [suffix])) = splitOn (CHR ''_'') name"
    by (simp add: butlast_append)
  then show ?thesis
    using assms sp joinWith_splitOn [of "CHR ''_''" name]
    by (simp add: parseFunctionNameFromId_def splitOn_toolCallId Let_def)
qed

text \<open>
  C9. For every function name, also one with underscores in it, and every suffix
  without an underscore, parsing the id \<open>call_{name}_{suffix}\<close> gives the name back.
  So an assistant message with that tool call (its arguments being valid JSON) becomes a
  function-call part with the name, and the tool message that answers the same call id
  becomes a function-response part with the same name.
\<close>

theorem tool_call_name_roundtrip:
  assumes "CHR ''_'' \<notin> set suffix"
    and "JSON_parse w arguments = Some args"
  shows "parseFunctionNameFromId (toolCallId name suffix) = name
       \<and> openAIMessageToGemini w
           \<lparr>msg_role = Assistant, msg_content = ContentNull,
            tool_calls = Some [\<lparr>tc_id = toolCallId name suffix, tc_usable = True,
                                tc_name = name, tc_arguments = arguments\<rparr>],
            tool_call_id = None\<rparr>
         = \<lparr>content_role = ''model'', parts = [FunctionCall name args]\<rparr>
       \<and> openAIMessageToGemini w
           \<lparr>msg_role = Tool, msg_content = result, tool_calls = None,
            tool_call_id = Some (toolCallId name suffix)\<rparr>
         = \<lparr>content_role = ''user'',
            parts = [FunctionResponse name (responsePayload w result)]\<rparr>"
  using assms by (simp add: openAIMessageToGemini_def parseFunctionNameFromId_toolCallId)

theorem tool_call_name_roundtrip_witness:
  "CHR ''_'' \<notin> set ''8f14e45f-ceea''
   \<and> JSON_parse exampleWorld ''{}'' = Some (JObj [])
   \<and> parseFunctionNameFromId ''call_get_weather_8f14e45f-ceea'' = ''get_weather''
   \<and> openAIMessageToGemini exampleWorld
           \<lparr>msg_role = Tool, msg_content = ContentString ''sunny'', tool_calls = None,
            tool_call_id = Some ''call_get_weather_8f14e45f-ceea''\<rparr>
         = \<lparr>content_role = ''user'',
            parts = [FunctionResponse ''get_weather'' (JObj [(''output'', JStr ''sunny'')])]\<rparr>"
  using tool_call_name_roundtrip
    [of "''8f14e45f-ceea''" exampleWorld "''{}''" "JObj []" "''get_weather''"
        "ContentString ''sunny''"]
  by (simp add: toolCallId_def exampleWorld_def responsePayload_def)

subsection \<open>The request path\<close>

lemma mgrShould_no_trigger:
  "\<not> canTrigger (Some fm) \<Longrightarrow> mgrShouldTriggerFallback fm err = (False, fm)"
  by (auto simp: canTrigger_def mgrShouldTriggerFallback_def svcShouldTriggerFallback_def
      split: option.splits)

lemma clientReport_frame:
  "invocations (clientReport now apiKey ok c) = invocations c"
  "fallbackManager (clientReport now apiKey ok c) = fallbackManager c"
  by (simp_all add: clientReport_def split: option.splits)

text \<open>Once the manager cannot trigger, a request makes at most one backend call, and the
  outcome of that call is the outcome of the request.\<close>

lemma exec_single:
  assumes "\<not> canTrigger (fallbackManager c)" and n: "n = length (invocations c)"
  shows "\<exists>ys. invocations (snd (executeStreamRequest w now stamp c model messages apiKey))
                 = invocations c @ ys
           \<and> length ys \<le> 1
           \<and> (\<forall>r\<in>set ys. at_apiKey r = apiKey
                  \<and> at_loggedModel r = (case fallbackManager c of
                                    None \<Rightarrow> model
                                  | Some fm \<Rightarrow> mgrGetCurrentModel fm))
           \<and> (ys \<noteq> [] \<longrightarrow> fst (executeStreamRequest w now stamp c model messages apiKey)
                  = (case backend w n of None \<Rightarrow> Inr (GeminiStream n) | Some e \<Rightarrow> Inl e))
           \<and> (ys = [] \<longleftrightarrow> \<not> sendable w (useInternalPrompt c) n messages apiKey)
           \<and> fallbackManager (snd (executeStreamRequest w now stamp c model messages apiKey))
                = fallbackManager c"
proof (cases "fallbackManager c")
  case None
  then show ?thesis
    unfolding n
    by (subst (1 2 3) executeStreamRequest.simps)
       (auto simp: Let_def clientReport_frame sendable_def remaining_def split: option.splits)
next
  case (Some fm)
  with assms have "mgrShouldTriggerFallback fm err = (False, fm)" for err
    by (simp add: mgrShould_no_trigger)
  with Some show ?thesis
    unfolding n
    by (subst (1 2 3) executeStreamRequest.simps)
       (auto simp: Let_def clientReport_frame sendable_def remaining_def split: option.splits)
qed

text \<open>A positive answer of the manager is followed by a successful switch, after which
  the manager cannot trigger again.\<close>

lemma trigger_after_should:
  assumes "mgrShouldTriggerFallback fm err = (True, fm1)"
  shows "\<exists>res fm2. mgrTriggerFallback w stamp fm1 err = (Inr res, fm2)
           \<and> \<not> canTrigger (Some fm2) \<and> mgrIsInFallbackMode fm2 \<and> \<not> mgrIsInFallbackMode fm
           \<and> mgrSwitchCount fm2 = Suc (mgrSwitchCount fm)
           \<and> tr_newModel res = mgrGetCurrentModel fm2"
  using assms
  by (auto simp: mgrTriggerFallback_def svcTriggerFallback_def svcPerformFallback_def
        svcSaveState_def mgrShouldTriggerFallback_def svcShouldTriggerFallback_def
        canTrigger_def mgrIsInFallbackMode_def mgrSwitchCount_def mgrGetCurrentModel_def Let_def
      split: option.splits if_splits prod.splits sum.splits)

lemma exec_no_retry:
  assumes "\<not> (\<exists>fm err. fallbackManager c = Some fm
                \<and> sendable w (useInternalPrompt c) (length (invocations c)) messages apiKey
                \<and> backend w (length (invocations c)) = Some err
                \<and> fst (mgrShouldTriggerFallback fm err))"
  shows "\<exists>ys. invocations (snd (executeStreamRequest w now stamp c model messages apiKey))
                 = invocations c @ ys
           \<and> length ys \<le> 1 \<and> (\<forall>r\<in>set ys. at_apiKey r = apiKey)
           \<and> (ys = [] \<longleftrightarrow>
                \<not> sendable w (useInternalPrompt c) (length (invocations c)) messages apiKey)"
proof (cases "sendable w (useInternalPrompt c) (length (invocations c)) messages apiKey")
  case False
  then show ?thesis
    by (subst executeStreamRequest.simps)
       (auto simp: Let_def sendable_def remaining_def split: option.splits if_splits)
next
  case send: True
  show ?thesis
  proof (cases "backend w (length (invocations c))")
    case None
    with send show ?thesis
      by (subst executeStreamRequest.simps)
         (auto simp: Let_def clientReport_frame sendable_def remaining_def
            split: option.splits if_splits)
  next
    case (Some err)
    show ?thesis
    proof (cases "fallbackManager c")
      case None
      with send Some show ?thesis
        by (subst executeStreamRequest.simps)
           (auto simp: Let_def clientReport_frame sendable_def remaining_def
              split: option.splits if_splits)
    next
      case fm: (Some fm)
      with assms send Some have "\<not> fst (mgrShouldTriggerFallback fm err)" by blast
      then obtain fm1 where "mgrShouldTriggerFallback fm err = (False, fm1)"
        by (cases "mgrShouldTriggerFallback fm err") auto
      with send Some fm show ?thesis
        by (subst executeStreamRequest.simps)
           (auto simp: Let_def clientReport_frame sendable_def remaining_def
              split: option.splits if_splits)
    qed
  qed
qed

lemma exec_retry:
  assumes fm: "fallbackManager c = Some fm"
    and send: "sendable w (useInternalPrompt c) (length (invocations c)) messages apiKey"
    and err: "backend w (length (invocations c)) = Some err"
    and should: "mgrShouldTriggerFallback fm err = (True, fm1)"
    and trig: "mgrTriggerFallback w stamp fm1 err = (Inr res, fm2)"
  shows "\<exists>req. at_apiKey req = apiKey \<and>
           executeStreamRequest w now stamp c model messages apiKey
         = executeStreamRequest w now stamp
             (c\<lparr>invocations := invocations c @ [req], fallbackManager := Some fm2\<rparr>)
             (mgrGetCurrentModel fm2) (remaining (useInternalPrompt c) messages) apiKey"
proof -
  let ?extracted = "if useInternalPrompt c then (None, messages) else spliceSystem messages"
  let ?history = "map (openAIMessageToGemini w) (snd ?extracted)"
  let ?req = "\<lparr>at_model = configModel c, at_loggedModel = mgrGetCurrentModel fm,
               at_apiKey = apiKey,
               at_systemInstruction = map_option (openAIMessageToGemini w) (fst ?extracted),
               at_history = butlast ?history, at_message = parts (last ?history)\<rparr>"
  have "executeStreamRequest w now stamp c model messages apiKey
         = executeStreamRequest w now stamp
             (c\<lparr>invocations := invocations c @ [?req], fallbackManager := Some fm2\<rparr>)
             (mgrGetCurrentModel fm2) (remaining (useInternalPrompt c) messages) apiKey"
    using assms
    by (subst executeStreamRequest.simps)
       (auto simp: Let_def sendable_def remaining_def split: option.splits if_splits)
  moreover have "at_apiKey ?req = apiKey" by simp
  ultimately show ?thesis by blast
qed

text \<open>The backend calls of one request.\<close>

lemma exec_attempts:
  "\<exists>ys. invocations (snd (executeStreamRequest w now stamp c model messages apiKey))
           = invocations c @ ys
     \<and> length ys \<le> 2
     \<and> (\<forall>r\<in>set ys. at_apiKey r = apiKey)
     \<and> (ys = [] \<longleftrightarrow>
          \<not> sendable w (useInternalPrompt c) (length (invocations c)) messages apiKey)
     \<and> (length ys = 2 \<longrightarrow>
          (\<exists>fm err fm'.
             fallbackManager c = Some fm
             \<and> backend w (length (invocations c)) = Some err
             \<and> fst (mgrShouldTriggerFallback fm err)
             \<and> fallbackManager (snd (executeStreamRequest w now stamp c model messages apiKey))
                 = Some fm'
             \<and> mgrIsInFallbackMode fm'
             \<and> mgrSwitchCount fm' = Suc (mgrSwitchCount fm)
             \<and> at_loggedModel (ys ! 1) = mgrGetCurrentModel fm'
             \<and> fst (executeStreamRequest w now stamp c model messages apiKey)
                 = (case backend w (Suc (length (invocations c))) of
                      None \<Rightarrow> Inr (GeminiStream (Suc (length (invocations c))))
                    | Some err2 \<Rightarrow> Inl err2)))
     \<and> ((\<exists>fm err.
            fallbackManager c = Some fm
            \<and> sendable w (useInternalPrompt c) (length (invocations c)) messages apiKey
            \<and> backend w (length (invocations c)) = Some err
            \<and> fst (mgrShouldTriggerFallback fm err)
            \<and> sendable w (useInternalPrompt c) (Suc (length (invocations c)))
                 (remaining (useInternalPrompt c) messages) apiKey)
          \<longrightarrow> length ys = 2)"
proof (cases "\<exists>fm err. fallbackManager c = Some fm
                \<and> sendable w (useInternalPrompt c) (length (invocations c)) messages apiKey
                \<and> backend w (length (invocations c)) = Some err
                \<and> fst (mgrShouldTriggerFallback fm err)")
  case False
  from exec_no_retry [OF False] obtain ys where
    ys: "invocations (snd (executeStreamRequest w now stamp c model messages apiKey))
           = invocations c @ ys"
      "length ys \<le> 1" "\<forall>r\<in>set ys. at_apiKey r = apiKey"
      "ys = [] \<longleftrightarrow>
         \<not> sendable w (useInternalPrompt c) (length (invocations c)) messages apiKey"
    by blast
  from ys(2) have "length ys \<noteq> 2" by simp
  with ys False show ?thesis
    by (intro exI [of _ ys]) auto
next
  case True
  then obtain fm err where fm: "fallbackManager c = Some fm"
    and send: "sendable w (useInternalPrompt c) (length (invocations c)) messages apiKey"
    and err: "backend w (length (invocations c)) = Some err"
    and should: "fst (mgrShouldTriggerFallback fm err)"
    by blast
  obtain fm1 where fm1: "mgrShouldTriggerFallback fm err = (True, fm1)"
    using should by (cases "mgrShouldTriggerFallback fm err") auto
  from trigger_after_should [OF fm1, of w stamp] obtain res fm2 where
    trig: "mgrTriggerFallback w stamp fm1 err = (Inr res, fm2)"
    and fm2: "\<not> canTrigger (Some fm2)" "mgrIsInFallbackMode fm2"
      "mgrSwitchCount fm2 = Suc (mgrSwitchCount fm)"
    by blast
  from exec_retry [OF fm send err fm1 trig, of now model] obtain req where
    req: "at_apiKey req = apiKey"
    and unfold: "executeStreamRequest w now stamp c model messages apiKey
         = executeStreamRequest w now stamp
             (c\<lparr>invocations := invocations c @ [req], fallbackManager := Some fm2\<rparr>)
             (mgrGetCurrentModel fm2) (remaining (useInternalPrompt c) messages) apiKey"
    by blast
  let ?c2 = "c\<lparr>invocations := invocations c @ [req], fallbackManager := Some fm2\<rparr>"
  let ?R = "executeStreamRequest w now stamp c model messages apiKey"
  have nc: "\<not> canTrigger (fallbackManager ?c2)" using fm2(1) by simp
  have len: "Suc (length (invocations c)) = length (invocations ?c2)" by simp
  note single = exec_single [OF nc len, of w now stamp "mgrGetCurrentModel fm2"
      "remaining (useInternalPrompt c) messages" apiKey, folded unfold]
  then obtain ys where
    raw: "invocations (snd ?R) = invocations ?c2 @ ys"
      "length ys \<le> 1"
      "\<forall>r\<in>set ys. at_apiKey r = apiKey
          \<and> at_loggedModel r = (case fallbackManager ?c2 of None \<Rightarrow> mgrGetCurrentModel fm2
                           | Some fm \<Rightarrow> mgrGetCurrentModel fm)"
      "ys \<noteq> [] \<longrightarrow> fst ?R
          = (case backend w (Suc (length (invocations c))) of
               None \<Rightarrow> Inr (GeminiStream (Suc (length (invocations c))))
             | Some e \<Rightarrow> Inl e)"
      "ys = [] \<longleftrightarrow> \<not> sendable w (useInternalPrompt ?c2) (Suc (length (invocations c)))
          (remaining (useInternalPrompt c) messages) apiKey"
      "fallbackManager (snd ?R) = fallbackManager ?c2"
    by blast
  have ys: "invocations (snd ?R) = invocations c @ req # ys"
      "length ys \<le> 1"
      "\<forall>r\<in>set ys. at_apiKey r = apiKey \<and> at_loggedModel r = mgrGetCurrentModel fm2"
      "ys \<noteq> [] \<longrightarrow> fst ?R
          = (case backend w (Suc (length (invocations c))) of
               None \<Rightarrow> Inr (GeminiStream (Suc (length (invocations c))))
             | Some e \<Rightarrow> Inl e)"
      "ys = [] \<longleftrightarrow> \<not> sendable w (useInternalPrompt c) (Suc (length (invocations c)))
          (remaining (useInternalPrompt c) messages) apiKey"
      "fallbackManager (snd ?R) = Some fm2"
    using raw by simp_all
  show ?thesis
  proof (intro exI [of _ "req # ys"] conjI impI)
    show "invocations (snd ?R) = invocations c @ req # ys"
      using ys(1) .
    show "length (req # ys) \<le> 2" using ys(2) by simp
    show "\<forall>r\<in>set (req # ys). at_apiKey r = apiKey" using ys(3) req by simp
    show "req # ys = [] \<longleftrightarrow>
        \<not> sendable w (useInternalPrompt c) (length (invocations c)) messages apiKey"
      using send by simp
  next
    assume two: "length (req # ys) = 2"
    then obtain r2 where r2: "ys = [r2]" by (cases ys) auto
    show "\<exists>fm err fm'.
             fallbackManager c = Some fm
             \<and> backend w (length (invocations c)) = Some err
             \<and> fst (mgrShouldTriggerFallback fm err)
             \<and> fallbackManager (snd ?R) = Some fm'
             \<and> mgrIsInFallbackMode fm'
             \<and> mgrSwitchCount fm' = Suc (mgrSwitchCount fm)
             \<and> at_loggedModel ((req # ys) ! 1) = mgrGetCurrentModel fm'
             \<and> fst ?R
                 = (case backend w (Suc (length (invocations c))) of
                      None \<Rightarrow> Inr (GeminiStream (Suc (length (invocations c))))
                    | Some err2 \<Rightarrow> Inl err2)"
      using fm err should ys(3,4,6) fm2 r2
      by (intro exI [of _ fm] exI [of _ err] exI [of _ fm2]) simp
  next
    assume "\<exists>fm err. fallbackManager c = Some fm
            \<and> sendable w (useInternalPrompt c) (length (invocations c)) messages apiKey
            \<and> backend w (length (invocations c)) = Some err
            \<and> fst (mgrShouldTriggerFallback fm err)
            \<and> sendable w (useInternalPrompt c) (Suc (length (invocations c)))
                 (remaining (useInternalPrompt c) messages) apiKey"
    then have "sendable w (useInternalPrompt c) (Suc (length (invocations c)))
                 (remaining (useInternalPrompt c) messages) apiKey" by blast
    with ys(5) have "ys \<noteq> []" by simp
    with ys(2) show "length (req # ys) = 2" by (cases ys) auto
  qed
qed

lemma coolingManager_getNextApiKey:
  "getNextApiKey rnd 1000 coolingManager = (Inl NoAvailableApiKeysFound, coolingManager)"
  by (simp add: coolingManager_def freshManager_def freshKey_def scenarioRotationConfig_def
      getNextApiKey_def isKeyAvailable_def reportKeyUsage_def saveState_def
      reportFailure_def moveToNextKey_def numeral_eq_Suc Let_def)

lemma sendable_userHello: "sendable exampleWorld False i [userHello] k"
  by (simp add: sendable_def remaining_def userHello_def exampleWorld_def)

text \<open>
  C5, as amended. When the rotation manager has no usable key, \<open>RotationService.getApiKey\<close>
  puts the default \<open>GEMINI_API_KEY\<close> in its place, and where that is not set
  \<open>sendMessageStream\<close> goes on without a rotated key. In both cases the request is
  executed: the backend is contacted as soon as there is a message to send and the content
  generator is created, and every call carries the default key or none.
\<close>

theorem sendMessageStream_without_rotated_key:
  assumes "rotationService c = Some rs" and "isEnabled rs" and "rotationManager rs = Some m"
    and "getNextApiKey rnd now m = (Inl err, m')"
  shows "sendMessageStream w rnd now stamp c model messages
           = executeStreamRequest w now stamp
               (c\<lparr>rotationService := Some (rs\<lparr>rotationManager := Some m'\<rparr>)\<rparr>) model messages
               (case getDefaultApiKey (env_GEMINI_API_KEY c) of Inl e \<Rightarrow> None | Inr k \<Rightarrow> Some k)
         \<and> (\<exists>ys. invocations (snd (sendMessageStream w rnd now stamp c model messages))
                    = invocations c @ ys
                \<and> (ys = [] \<longleftrightarrow>
                     \<not> sendable w (useInternalPrompt c) (length (invocations c)) messages
                         (case getDefaultApiKey (env_GEMINI_API_KEY c) of
                            Inl e \<Rightarrow> None | Inr k \<Rightarrow> Some k))
                \<and> (\<forall>r\<in>set ys. at_apiKey r =
                       (case getDefaultApiKey (env_GEMINI_API_KEY c) of
                          Inl e \<Rightarrow> None | Inr k \<Rightarrow> Some k)))"
proof -
  let ?k = "case getDefaultApiKey (env_GEMINI_API_KEY c) of Inl e \<Rightarrow> None | Inr k \<Rightarrow> Some k"
  let ?c' = "c\<lparr>rotationService := Some (rs\<lparr>rotationManager := Some m'\<rparr>)\<rparr>"
  have eq: "sendMessageStream w rnd now stamp c model messages
      = executeStreamRequest w now stamp ?c' model messages ?k"
    using assms by (simp add: sendMessageStream_def getApiKey_def split: sum.splits)
  from exec_attempts [of w now stamp ?c' model messages ?k] obtain ys where
    "invocations (snd (executeStreamRequest w now stamp ?c' model messages ?k))
       = invocations ?c' @ ys"
    "\<forall>r\<in>set ys. at_apiKey r = ?k"
    "ys = [] \<longleftrightarrow> \<not> sendable w (useInternalPrompt ?c') (length (invocations ?c')) messages ?k"
    by blast
  then have "invocations (snd (sendMessageStream w rnd now stamp c model messages))
        = invocations c @ ys
      \<and> (ys = [] \<longleftrightarrow> \<not> sendable w (useInternalPrompt c) (length (invocations c)) messages ?k)
      \<and> (\<forall>r\<in>set ys. at_apiKey r = ?k)"
    unfolding eq by simp
  with eq show ?thesis by blast
qed

theorem sendMessageStream_without_rotated_key_witness:
  "getNextApiKey (\<lambda>i. 0) 1000 coolingManager = (Inl NoAvailableApiKeysFound, coolingManager)
   \<and> sendable exampleWorld False 0 [userHello] None
   \<and> invocations (snd (sendMessageStream exampleWorld (\<lambda>i. 0) 1000 ''t5'' coolingClient
                          ''gemini-2.5-pro'' [userHello])) \<noteq> []"
proof -
  have facts: "rotationService coolingClient
        = Some \<lparr>isEnabled = True, rotationManager = Some coolingManager\<rparr>"
      "isEnabled \<lparr>isEnabled = True, rotationManager = Some coolingManager\<rparr>"
      "rotationManager \<lparr>isEnabled = True, rotationManager = Some coolingManager\<rparr>
        = Some coolingManager"
    by (simp_all add: coolingClient_def)
  have simps: "env_GEMINI_API_KEY coolingClient = None" "useInternalPrompt coolingClient = False"
      "invocations coolingClient = []"
    by (simp_all add: coolingClient_def)
  from sendMessageStream_without_rotated_key
         [where rnd = "\<lambda>i. 0" and w = exampleWorld and stamp = "''t5''"
            and model = "''gemini-2.5-pro''" and messages = "[userHello]",
          OF facts coolingManager_getNextApiKey]
  obtain ys where
    "invocations (snd (sendMessageStream exampleWorld (\<lambda>i. 0) 1000 ''t5'' coolingClient
                         ''gemini-2.5-pro'' [userHello])) = invocations coolingClient @ ys"
    "ys = [] \<longleftrightarrow> \<not> sendable exampleWorld (useInternalPrompt coolingClient)
                      (length (invocations coolingClient)) [userHello]
                      (case getDefaultApiKey (env_GEMINI_API_KEY coolingClient) of
                         Inl e \<Rightarrow> None | Inr k \<Rightarrow> Some k)"
    by blast
  then show ?thesis
    by (simp add: simps getDefaultApiKey_def sendable_userHello coolingManager_getNextApiKey)
qed

text \<open>The claim as stated fails: with the only key cooling down and no default key, the
  request is not refused; the backend is called, without a key, and its stream is
  returned.\<close>

theorem sendMessageStream_all_keys_cooling_contacts_backend:
  "fst (getNextApiKey (\<lambda>i. 0) 1000 coolingManager) = Inl NoAvailableApiKeysFound
   \<and> fst (sendMessageStream exampleWorld (\<lambda>i. 0) 1000 ''t5'' coolingClient ''gemini-2.5-pro''
            [userHello]) = Inr (GeminiStream 0)
   \<and> map at_apiKey
       (invocations (snd (sendMessageStream exampleWorld (\<lambda>i. 0) 1000 ''t5'' coolingClient
                            ''gemini-2.5-pro'' [userHello]))) = [None]"
  by (simp add: sendMessageStream_def getApiKey_def coolingManager_getNextApiKey
      getDefaultApiKey_def coolingClient_def executeStreamRequest.simps userHello_def
      exampleWorld_def isTruthyKey_def openAIMessageToGemini_def clientReport_def Let_def)

text \<open>
  C6. The claim expects the one retry after a fallback to be made with the new model.
  \<open>executeStreamRequest\<close> computes \<open>currentModel\<close> from the fallback manager, logs it
  and passes it nowhere: the content generator and the chat are built from
  \<open>this.config\<close> on every attempt. With \<open>gemini-2.5-pro\<close> as the primary and configured
  model and \<open>gemini-2.5-flash\<close> as the fallback model, a first backend call that fails
  with a 500 switches the manager to \<open>gemini-2.5-flash\<close> and the request is retried once
  with the same key, but the second backend call runs under \<open>gemini-2.5-pro\<close> again. The
  error of the second call is what the caller gets. The system message was spliced out of
  the caller's list before the first call, so the retry is also made without the system
  instruction.
\<close>

theorem executeStreamRequest_retry_keeps_config_model:
  "(let R = executeStreamRequest failingWorld 1000 ''t5'' primaryClient ''gemini-2.5-pro''
              [systemBrief, userHello] (Some ''k1'')
    in fst R = Inl boomError
     \<and> map at_model (invocations (snd R)) = [''gemini-2.5-pro'', ''gemini-2.5-pro'']
     \<and> map at_loggedModel (invocations (snd R)) = [''gemini-2.5-pro'', ''gemini-2.5-flash'']
     \<and> map at_apiKey (invocations (snd R)) = [Some ''k1'', Some ''k1'']
     \<and> map_option mgrGetCurrentModel (fallbackManager (snd R)) = Some ''gemini-2.5-flash''
     \<and> map at_systemInstruction (invocations (snd R))
         = [Some \<lparr>content_role = ''user'', parts = [Text ''be brief'']\<rparr>, None])"
proof -
  let ?fm = "newFallbackManager defaultFallbackConfig ''t0'' emptyDb"
  have "fst (mgrShouldTriggerFallback ?fm serverError500)"
    by (simp add: mgrShouldTriggerFallback_def svcShouldTriggerFallback_def
        newFallbackManager_def newFallbackService_def defaultFallbackConfig_def
        errorShouldTriggerFallback_def fallbackTriggerTypes_def getErrorType_serverError500)
  then obtain fm1 where should: "mgrShouldTriggerFallback ?fm serverError500 = (True, fm1)"
    by (cases "mgrShouldTriggerFallback ?fm serverError500") auto
  obtain res fm2 where
    trig: "mgrTriggerFallback failingWorld ''t5'' fm1 serverError500 = (Inr res, fm2)"
    and fm2: "\<not> canTrigger (Some fm2)" "mgrIsInFallbackMode fm2"
    and model: "tr_newModel res = mgrGetCurrentModel fm2"
    using trigger_after_should [OF should, of failingWorld "''t5''"] by blast
  have flash: "mgrGetCurrentModel fm2 = ''gemini-2.5-flash''"
    using should trig
    by (auto simp: mgrTriggerFallback_def svcTriggerFallback_def svcPerformFallback_def
        svcSaveState_def mgrShouldTriggerFallback_def svcShouldTriggerFallback_def
        newFallbackManager_def newFallbackService_def defaultFallbackConfig_def
        mgrGetCurrentModel_def Let_def
        split: sum.splits if_splits)
  have again: "mgrShouldTriggerFallback fm2 err = (False, fm2)" for err
    using fm2(1) by (rule mgrShould_no_trigger)
  have world: "backend failingWorld 0 = Some serverError500"
      "backend failingWorld (Suc 0) = Some boomError"
      "createContentGenerator failingWorld i = None" for i
    by (simp_all add: failingWorld_def exampleWorld_def)
  have pro: "mgrGetCurrentModel ?fm = ''gemini-2.5-pro''"
    by (simp add: mgrGetCurrentModel_def newFallbackManager_def newFallbackService_def
        defaultFallbackConfig_def)
  have second: "executeStreamRequest failingWorld 1000 ''t5''
          (primaryClient\<lparr>invocations := [a], fallbackManager := Some fm2\<rparr>)
          ''gemini-2.5-flash'' [userHello] (Some ''k1'')
      = (Inl boomError,
         primaryClient\<lparr>invocations :=
            [a, \<lparr>at_model = ''gemini-2.5-pro'', at_loggedModel = ''gemini-2.5-flash'',
                  at_apiKey = Some ''k1'', at_systemInstruction = None, at_history = [],
                  at_message = [Text ''hello'']\<rparr>],
          fallbackManager := Some fm2\<rparr>)" for a
    by (subst executeStreamRequest.simps)
       (simp add: primaryClient_def userHello_def world
          isTruthyKey_def openAIMessageToGemini_def clientReport_def again flash Let_def)
  have first: "executeStreamRequest failingWorld 1000 ''t5'' primaryClient ''gemini-2.5-pro''
          [systemBrief, userHello] (Some ''k1'')
      = executeStreamRequest failingWorld 1000 ''t5''
          (primaryClient\<lparr>invocations :=
             [\<lparr>at_model = ''gemini-2.5-pro'', at_loggedModel = ''gemini-2.5-pro'',
               at_apiKey = Some ''k1'',
               at_systemInstruction = Some \<lparr>content_role = ''user'', parts = [Text ''be brief'']\<rparr>,
               at_history = [], at_message = [Text ''hello'']\<rparr>],
            fallbackManager := Some fm2\<rparr>)
          ''gemini-2.5-flash'' [userHello] (Some ''k1'')"
    by (subst executeStreamRequest.simps)
       (simp add: primaryClient_def systemBrief_def userHello_def world
          isTruthyKey_def openAIMessageToGemini_def should trig flash pro Let_def)
  show ?thesis
    unfolding Let_def first second by (simp add: flash)
qed

end
